theory Spec2Isabelle
  imports Complex_Main "HOL-Library.Log_Nat" "HOL-Library.Monad_Syntax"
begin

section \<open>Python numbers\<close>

text \<open>
  The service engine of \<^verbatim>\<open>src/app.py\<close> computes with Python's unbounded \<open>int\<close> and with
  \<open>float\<close>, an IEEE-754 binary64 number.  Integers are \<^typ>\<open>int\<close>.  A float is either a
  finite value, held as the rational it denotes, or one of the three special values.  Every
  arithmetic operation rounds its exact result to the nearest double, ties to the even
  significand, so that the truncations \<open>int(...)\<close> of the source see the same digits as in
  CPython.  The sign of zero is not recorded: no operation below can tell the two zeros apart
  (both make a division raise).

  A Python expression that can raise is an \<open>option\<close>: \<open>None\<close> stands for the raised exception
  and the comment at the definition names it.
\<close>

datatype pyfloat = Fin rat | PInf | NInf | NaN

definition ilog2 :: "rat \<Rightarrow> int" where
  \<comment> \<open>the binary exponent of a positive rational (the floor of its base-2 logarithm), from
      the bit lengths of its numerator and denominator\<close>
  "ilog2 x = (let (a, b) = quotient_of x; e0 = bitlen a - bitlen b
              in if 2 powi e0 \<le> x then e0 else e0 - 1)"

definition round_half_even :: "rat \<Rightarrow> int" where
  "round_half_even x =
     (let f = \<lfloor>x\<rfloor>; d = x - of_int f
      in if d < 1 / 2 then f else if 1 / 2 < d then f + 1 else if even f then f else f + 1)"

definition quantum :: "rat \<Rightarrow> rat" where
  \<comment> \<open>the spacing of the doubles around \<open>x\<close>: 53 significant bits, and the fixed spacing
      \<open>2 powi - 1074\<close> of the subnormal range\<close>
  "quantum x = 2 powi (max (ilog2 \<bar>x\<bar>) (- 1022) - 52)"

definition round_rat :: "rat \<Rightarrow> rat" where
  "round_rat x = (if x = 0 then 0 else of_int (round_half_even (x / quantum x)) * quantum x)"

definition round_double :: "rat \<Rightarrow> pyfloat" where
  \<comment> \<open>round to nearest, overflowing to an infinity from \<open>2 powi 1024\<close> on\<close>
  "round_double x =
     (let r = round_rat x
      in if 2 powi 1024 \<le> \<bar>r\<bar> then (if 0 < x then PInf else NInf) else Fin r)"

definition lit :: "rat \<Rightarrow> pyfloat" where
  \<comment> \<open>a decimal float literal of the source, such as \<open>0.7\<close>\<close>
  "lit x = round_double x"

definition float_of_int :: "int \<Rightarrow> pyfloat option" where
  \<comment> \<open>the conversion of an \<open>int\<close> operand in mixed arithmetic; \<open>None\<close> is OverflowError\<close>
  "float_of_int n = (case round_double (of_int n) of Fin r \<Rightarrow> Some (Fin r) | _ \<Rightarrow> None)"

definition float_of_len :: "nat \<Rightarrow> pyfloat" where
  \<comment> \<open>the conversion of \<open>len(xs)\<close> as an operand: a list holds fewer than \<open>2^63\<close> elements,
      so this conversion is finite and cannot raise\<close>
  "float_of_len n = Fin (round_rat (of_nat n))"

definition int_truediv :: "int \<Rightarrow> int \<Rightarrow> pyfloat option" where
  \<comment> \<open>\<open>a / b\<close> on two ints: the correctly rounded quotient; \<open>None\<close> is ZeroDivisionError or
      OverflowError\<close>
  "int_truediv a b =
     (if b = 0 then None
      else case round_double (of_int a / of_int b) of Fin r \<Rightarrow> Some (Fin r) | _ \<Rightarrow> None)"

fun fsgn :: "pyfloat \<Rightarrow> int" where
  "fsgn (Fin a) = (if a < 0 then - 1 else if a = 0 then 0 else 1)"
| "fsgn PInf = 1"
| "fsgn NInf = - 1"
| "fsgn NaN = 0"

fun fneg :: "pyfloat \<Rightarrow> pyfloat" where
  "fneg (Fin a) = Fin (- a)"
| "fneg PInf = NInf"
| "fneg NInf = PInf"
| "fneg NaN = NaN"

fun fadd :: "pyfloat \<Rightarrow> pyfloat \<Rightarrow> pyfloat" where
  "fadd (Fin a) (Fin b) = round_double (a + b)"
| "fadd NaN y = NaN"
| "fadd x NaN = NaN"
| "fadd PInf NInf = NaN"
| "fadd NInf PInf = NaN"
| "fadd PInf y = PInf"
| "fadd NInf y = NInf"
| "fadd (Fin a) y = y"

definition fsub :: "pyfloat \<Rightarrow> pyfloat \<Rightarrow> pyfloat" where
  "fsub x y = fadd x (fneg y)"

fun fmul :: "pyfloat \<Rightarrow> pyfloat \<Rightarrow> pyfloat" where
  "fmul (Fin a) (Fin b) = round_double (a * b)"
| "fmul NaN y = NaN"
| "fmul x NaN = NaN"
| "fmul x y = (if fsgn x * fsgn y = 0 then NaN else if 0 < fsgn x * fsgn y then PInf else NInf)"

fun fdiv :: "pyfloat \<Rightarrow> pyfloat \<Rightarrow> pyfloat option" where
  \<comment> \<open>\<open>None\<close> is ZeroDivisionError\<close>
  "fdiv x (Fin b) =
     (if b = 0 then None
      else case x of
        Fin a \<Rightarrow> Some (round_double (a / b))
      | NaN \<Rightarrow> Some NaN
      | _ \<Rightarrow> Some (if 0 < fsgn x * fsgn (Fin b) then PInf else NInf))"
| "fdiv NaN y = Some NaN"
| "fdiv x NaN = Some NaN"
| "fdiv (Fin a) y = Some (Fin 0)"
| "fdiv x y = Some NaN"

fun flt :: "pyfloat \<Rightarrow> pyfloat \<Rightarrow> bool" where
  \<comment> \<open>\<open>x < y\<close>; every comparison with NaN is false\<close>
  "flt (Fin a) (Fin b) = (a < b)"
| "flt NaN y = False"
| "flt x NaN = False"
| "flt x NInf = False"
| "flt PInf y = False"
| "flt x y = True"

definition py_max :: "pyfloat \<Rightarrow> pyfloat \<Rightarrow> pyfloat" where
  \<comment> \<open>\<open>max(x, y)\<close> keeps its first argument unless the second is greater\<close>
  "py_max x y = (if flt x y then y else x)"

definition py_min :: "pyfloat \<Rightarrow> pyfloat \<Rightarrow> pyfloat" where
  \<comment> \<open>\<open>min(x, y)\<close> keeps its first argument unless the second is smaller\<close>
  "py_min x y = (if flt y x then y else x)"

definition trunc_rat :: "rat \<Rightarrow> int" where
  "trunc_rat x = (if 0 \<le> x then \<lfloor>x\<rfloor> else \<lceil>x\<rceil>)"

fun int_of_float :: "pyfloat \<Rightarrow> int option" where
  \<comment> \<open>\<open>int(x)\<close> truncates toward zero; \<open>None\<close> is OverflowError (infinities) or ValueError (NaN)\<close>
  "int_of_float (Fin a) = Some (trunc_rat a)"
| "int_of_float x = None"

section \<open>Domain model\<close>

text \<open>
  Times of day are minutes after midnight: the lunch window and the wave boundaries fall on
  whole minutes, so comparing the minute of the clock against them decides the same as
  comparing the clock itself.  A calendar date is its day number.
\<close>

type_synonym date = nat

record SiteConfig =
  site_id :: string
  name :: string
  lunch_window_start :: int
  lunch_window_end :: int
  wave_duration_minutes :: int
  portion_grams :: int
  pan_capacity_portions :: int
  dish_name :: string

record WaveState =
  index :: int
  start_time :: int
  end_time :: int
  expected_diners_pattern :: int

datatype card_status = Pending | Done | Skipped

text \<open>
  A decision card.  The timestamp is kept as its \<open>isoformat()\<close> text, the only form in which
  the staleness guard reads it.  The dish name and type, the note and the two display labels
  of the source's card are presentation strings and are left out.
\<close>

record DecisionCard =
  site_id :: string
  wave_index :: int
  timestamp :: string
  predicted_diners_next_wave :: int
  suggested_grams :: int
  pan_fill_percent :: int
  satisfaction_percent :: "int option"
  suggested_portions :: pyfloat
  service_slot :: string
  status :: card_status

text \<open>
  A detailed feedback entry.  \<open>entry_time\<close> is what \<open>datetime.fromisoformat\<close> makes of the
  entry's timestamp, in microseconds; it is \<open>None\<close> when the timestamp is missing, empty or
  not a date.  Each answer of \<open>responses\<close> is held as its \<open>str(value)\<close> text, which is all the
  aggregator reads; the list keeps the insertion order of the dictionary.
\<close>

record FeedbackEntry =
  question_set :: string
  entry_time :: "int option"
  responses :: "(string \<times> string) list"

record ReactionEntry =
  response_key :: string
  reaction_value :: string
  reaction_source :: string

text \<open>
  The session of one site on one day.  The waste and savings figures of the source's
  \<open>ServiceDay\<close> feed only the manager pages and are left out.
\<close>

record ServiceDay =
  site_id :: string
  date :: date
  total_expected_diners :: int
  diners_so_far :: int
  wave_index :: int
  pan_fill_percent :: int
  feedback_scores :: "int list"
  detailed_feedback :: "FeedbackEntry list"
  reaction_stream :: "ReactionEntry list"
  last_decision :: "DecisionCard option"
  waves :: "WaveState list"

definition DEFAULT_SITE_ID :: string where
  "DEFAULT_SITE_ID = ''flavoria''"

definition default_site :: SiteConfig where
  "default_site =
     \<lparr>SiteConfig.site_id = DEFAULT_SITE_ID, name = ''Flavoria'',
      lunch_window_start = 11 * 60, lunch_window_end = 13 * 60 + 30,
      wave_duration_minutes = 30, portion_grams = 160, pan_capacity_portions = 20,
      dish_name = ''Salmon''\<rparr>"

definition get_site_config :: "string \<Rightarrow> SiteConfig" where
  \<comment> \<open>\<open>SITES.get(site_id, SITES[DEFAULT_SITE_ID])\<close>, with the one entry that \<open>SITES\<close> has\<close>
  "get_site_config sid = default_site"

definition PRIMARY_SERVICE_SLOT :: string where
  "PRIMARY_SERVICE_SLOT = ''favourite_1''"

definition MAX_REACTIONS_STORED :: nat where "MAX_REACTIONS_STORED = 75"
definition FEEDBACK_SCORE_HISTORY_LIMIT :: nat where "FEEDBACK_SCORE_HISTORY_LIMIT = 100"
definition DETAILED_FEEDBACK_HISTORY_LIMIT :: nat where "DETAILED_FEEDBACK_HISTORY_LIMIT = 400"
definition DETAILED_FEEDBACK_WINDOW_MINUTES :: int where "DETAILED_FEEDBACK_WINDOW_MINUTES = 90"
definition MAX_DETAILED_FEEDBACK_SAMPLES :: nat where "MAX_DETAILED_FEEDBACK_SAMPLES = 160"

definition NUMERIC_FEEDBACK_WEIGHTS :: "string \<Rightarrow> pyfloat option" where
  "NUMERIC_FEEDBACK_WEIGHTS =
     map_of [(''smell'', lit (5 / 100)), (''appearance'', lit (4 / 100)),
             (''staff_warmth'', lit (3 / 100)), (''value_for_money'', lit (6 / 100))]"

definition CATEGORICAL_FEEDBACK_WEIGHTS :: "string \<Rightarrow> (string \<Rightarrow> pyfloat option) option" where
  "CATEGORICAL_FEEDBACK_WEIGHTS =
     map_of
      [(''temperature'',
          map_of [(''too_cold'', lit (- (5 / 100))), (''just_right'', lit (2 / 100)),
                  (''too_hot'', lit (- (3 / 100)))]),
       (''wait_time'',
          map_of [(''quick'', lit (5 / 100)), (''ok'', lit 0), (''too_long'', lit (- (8 / 100)))]),
       (''flow_speed'',
          map_of [(''smooth'', lit (4 / 100)), (''stop_and_go'', lit (- (3 / 100))),
                  (''stalled'', lit (- (7 / 100)))]),
       (''portion_size'',
          map_of [(''too_light'', lit (- (5 / 100))), (''just_right'', lit (3 / 100)),
                  (''too_heavy'', lit (- (2 / 100)))]),
       (''overall_mood'',
          map_of [(''energized'', lit (5 / 100)), (''content'', lit (2 / 100)),
                  (''neutral'', lit (- (15 / 1000)))])]"

subsection \<open>Wave schedule\<close>

definition EXPECTED_WAVES :: "int list" where
  "EXPECTED_WAVES = [10, 30, 40, 25, 15]"

definition time_of :: "int \<Rightarrow> int" where
  \<comment> \<open>\<open>datetime.time()\<close>: the time of day of a moment counted in minutes from today's midnight\<close>
  "time_of m = m mod 1440"

text \<open>
  \<open>get_wave_template\<close>: the loop runs while the running time of day is before the end of the
  window and the index is inside the pattern; the index walks the pattern, so the recursion is
  on the part of the pattern not yet used.
\<close>

fun wave_loop :: "SiteConfig \<Rightarrow> int \<Rightarrow> int \<Rightarrow> int list \<Rightarrow> WaveState list" where
  "wave_loop site current idx [] = []"
| "wave_loop site current idx (p # ps) =
     (if time_of current < time_of (lunch_window_end site)
      then (let next_slot = current + wave_duration_minutes site
            in \<lparr>index = idx, start_time = time_of current, end_time = time_of next_slot,
                expected_diners_pattern = p\<rparr>
               # wave_loop site next_slot (idx + 1) ps)
      else [])"

definition get_wave_template :: "SiteConfig \<Rightarrow> WaveState list" where
  "get_wave_template site = wave_loop site (lunch_window_start site) 0 [10, 30, 40, 25, 15]"

definition get_current_wave_index :: "int \<Rightarrow> SiteConfig \<Rightarrow> int option" where
  \<comment> \<open>\<open>None\<close> is the IndexError of \<open>waves[0]\<close> on an empty template\<close>
  "get_current_wave_index now site =
     (let waves = get_wave_template site
      in case find (\<lambda>wave. start_time wave \<le> now \<and> now < end_time wave) waves of
           Some wave \<Rightarrow> Some (index wave)
         | None \<Rightarrow>
             (case waves of
                [] \<Rightarrow> None
              | w0 # _ \<Rightarrow> if now < start_time w0 then Some (index w0) else Some (index (last waves))))"

subsection \<open>Forecast\<close>

text \<open>
  \<open>StubForecastAdapter.predict_next_wave\<close>.  The weekday of \<open>datetime.now()\<close> is an argument
  (Monday is 0).  The session gives \<open>total_expected_diners\<close> and \<open>diners_so_far\<close>.
\<close>

definition predict_next_wave ::
  "nat \<Rightarrow> ServiceDay \<Rightarrow> int \<Rightarrow> pyfloat \<Rightarrow> int option" where
  "predict_next_wave weekday service_day wave_idx feedback_multiplier = do {
     let idx = min (max wave_idx 0) (int (length EXPECTED_WAVES) - 1);
     let expected = EXPECTED_WAVES ! nat idx;
     expected_in_wave \<leftarrow>
       (if 5 \<le> weekday
        then do { e \<leftarrow> float_of_int expected; int_of_float (fmul e (lit (7 / 10))) }
        else Some expected);
     let remaining_expected = max (total_expected_diners service_day - diners_so_far service_day) 0;
     let total_waves = int (length EXPECTED_WAVES);
     let remaining_waves = max (total_waves - wave_idx) 1;
     base_for_wave \<leftarrow> int_truediv remaining_expected remaining_waves;
     e \<leftarrow> float_of_int expected_in_wave;
     let predicted = fadd (fmul (lit (1 / 2)) e) (fmul (lit (1 / 2)) base_for_wave);
     let predicted = fmul predicted feedback_multiplier;
     p \<leftarrow> int_of_float predicted;
     Some (max p 0)
   }"

subsection \<open>Prep quantity and satisfaction\<close>

definition compute_suggested_grams :: "int \<Rightarrow> int \<Rightarrow> int \<Rightarrow> int \<Rightarrow> int option" where
  \<comment> \<open>\<open>max(x, 0)\<close> gives the int \<open>0\<close> when \<open>0 > x\<close>, and then \<open>int(0 * portion_grams)\<close> is \<open>0\<close>\<close>
  "compute_suggested_grams predicted_diners pan_fill portion_g pan_capacity = do {
     pf \<leftarrow> float_of_int pan_fill;
     fraction \<leftarrow> fdiv pf (lit 100);
     cap \<leftarrow> float_of_int pan_capacity;
     let current_portions = fmul fraction cap;
     predicted \<leftarrow> float_of_int predicted_diners;
     let portions_needed = fsub predicted current_portions;
     grams \<leftarrow>
       (if flt portions_needed (Fin 0) then Some 0
        else do { g \<leftarrow> float_of_int portion_g; int_of_float (fmul portions_needed g) });
     Some (max 0 (min grams 4000))
   }"

definition compute_satisfaction_percent :: "int list \<Rightarrow> int option option" where
  \<comment> \<open>the outer \<open>None\<close> is a raised exception, the inner \<open>None\<close> is Python's \<open>None\<close>\<close>
  "compute_satisfaction_percent scores =
     (if scores = [] then Some None
      else do {
        avg \<leftarrow> int_truediv (sum_list scores) (int (length scores));
        half \<leftarrow> fdiv (Fin 67) (lit 2);
        p \<leftarrow> int_of_float (fadd (Fin 33) (fmul (fsub avg (Fin 1)) half));
        Some (Some p)
      })"

subsection \<open>JSON values and built-ins\<close>

text \<open>
  A value that \<open>json.loads\<close> returns: the body of a request, or a field of it.  A number
  written with a fraction or an exponent is a float, \<open>Infinity\<close> and \<open>NaN\<close> included, which
  \<open>json.loads\<close> accepts; any other number is an \<open>int\<close>.  An object is the association list of
  the dictionary it decodes to.
\<close>

datatype json =
  JNull | JBool bool | JInt int | JFloat pyfloat | JStr string
  | JArr "json list" | JObj "(string \<times> json) list"

text \<open>
  Four built-ins of the interpreter are arguments of the model: \<open>float(raw)\<close> on a string
  (\<open>None\<close> is the ValueError that the source catches and skips), \<open>sum\<close> on a list of floats,
  whose last digits depend on the interpreter's version, \<open>int(s)\<close> on a string (\<open>None\<close> is
  ValueError), and \<open>str(v)\<close> on a JSON value that is not a string.  The properties proved
  below hold for every choice of the four.
\<close>

record builtins =
  float_of_str :: "string \<Rightarrow> pyfloat option"
  float_sum :: "pyfloat list \<Rightarrow> pyfloat"
  int_of_str :: "string \<Rightarrow> int option"
  str_of :: "json \<Rightarrow> string"

subsection \<open>Feedback aggregation\<close>

definition last_n :: "nat \<Rightarrow> 'a list \<Rightarrow> 'a list" where
  \<comment> \<open>the slice \<open>xs[-n:]\<close>, which is all of \<open>xs\<close> for \<open>n = 0\<close>\<close>
  "last_n n xs = (if n = 0 then xs else drop (length xs - n) xs)"

fun stats_append :: "(string \<times> string list) list \<Rightarrow> string \<times> string \<Rightarrow> (string \<times> string list) list" where
  \<comment> \<open>\<open>stats[key].append(str(value))\<close> on a \<open>defaultdict(list)\<close>, which keeps the order in which
      its keys first appear\<close>
  "stats_append [] (k, v) = [(k, [v])]"
| "stats_append ((k', vs) # rest) (k, v) =
     (if k' = k then (k', vs @ [v]) # rest else (k', vs) # stats_append rest (k, v))"

fun collect_stats ::
  "int \<Rightarrow> FeedbackEntry list \<Rightarrow> nat \<Rightarrow> (string \<times> string list) list \<Rightarrow> (string \<times> string list) list" where
  \<comment> \<open>the loop over \<open>reversed(entries)\<close>; its list argument is already reversed\<close>
  "collect_stats cutoff [] samples stats = stats"
| "collect_stats cutoff (entry # rest) samples stats =
     (if MAX_DETAILED_FEEDBACK_SAMPLES \<le> samples then stats
      else case entry_time entry of
        Some t \<Rightarrow>
          if t < cutoff then collect_stats cutoff rest samples stats
          else collect_stats cutoff rest (samples + 1) (foldl stats_append stats (responses entry))
      | None \<Rightarrow> collect_stats cutoff rest (samples + 1) (foldl stats_append stats (responses entry)))"

fun key_deltas :: "builtins \<Rightarrow> (string \<times> string list) list \<Rightarrow> pyfloat \<Rightarrow> pyfloat option" where
  \<comment> \<open>the loop over \<open>stats.items()\<close>, threading \<open>total_delta\<close>\<close>
  "key_deltas b [] total_delta = Some total_delta"
| "key_deltas b ((key, vals) # rest) total_delta =
     (case NUMERIC_FEEDBACK_WEIGHTS key of
        Some weight \<Rightarrow>
          (let numbers = List.map_filter (float_of_str b) vals
           in if numbers = [] then key_deltas b rest total_delta
              else do {
                avg_value \<leftarrow> fdiv (float_sum b numbers) (float_of_len (length numbers));
                normalized \<leftarrow> fdiv (fsub avg_value (lit 3)) (lit 2);
                let delta = fmul normalized weight;
                key_deltas b rest (fadd total_delta delta)
              })
      | None \<Rightarrow>
          (case CATEGORICAL_FEEDBACK_WEIGHTS key of
             Some mapping \<Rightarrow>
               (let weights = map (\<lambda>v. case mapping v of Some x \<Rightarrow> x | None \<Rightarrow> lit 0) vals
                in if weights = [] then key_deltas b rest total_delta
                   else do {
                     delta \<leftarrow> fdiv (float_sum b weights) (float_of_len (length weights));
                     key_deltas b rest (fadd total_delta delta)
                   })
           | None \<Rightarrow> key_deltas b rest total_delta))"

definition rated_delta :: "int list \<Rightarrow> pyfloat \<Rightarrow> pyfloat option" where
  \<comment> \<open>the \<open>if scores:\<close> block\<close>
  "rated_delta scores total_delta =
     (if scores = [] then Some total_delta
      else do {
        avg_rating \<leftarrow> int_truediv (sum_list scores) (int (length scores));
        let rating_delta = fmul (fsub avg_rating (lit 2)) (lit (8 / 100));
        Some (fadd total_delta rating_delta)
      })"

definition detailed_delta :: "builtins \<Rightarrow> int \<Rightarrow> FeedbackEntry list \<Rightarrow> pyfloat \<Rightarrow> pyfloat option" where
  \<comment> \<open>the \<open>if entries:\<close> block; \<open>utc_now\<close> is \<open>datetime.utcnow()\<close> in microseconds\<close>
  "detailed_delta b utc_now entries total_delta =
     (if entries = [] then Some total_delta
      else (let cutoff = utc_now - DETAILED_FEEDBACK_WINDOW_MINUTES * 60 * 1000000;
                stats = collect_stats cutoff (rev entries) 0 []
            in key_deltas b stats total_delta))"

text \<open>
  \<open>compute_feedback_demand_multiplier\<close> on the two histories that its caller hands over.  The
  second component of the source's result, the dictionary of rounded per-key deltas, is
  display data and is not modelled.
\<close>

definition compute_feedback_demand_multiplier ::
  "builtins \<Rightarrow> int \<Rightarrow> int list \<Rightarrow> FeedbackEntry list \<Rightarrow> pyfloat option" where
  "compute_feedback_demand_multiplier b utc_now scores entries = do {
     total_delta \<leftarrow> rated_delta scores (lit 0);
     total_delta \<leftarrow> detailed_delta b utc_now entries total_delta;
     let bounded_delta = py_max (lit (- (2 / 10))) (py_min total_delta (lit (18 / 100)));
     Some (fadd (lit 1) bounded_delta)
   }"

section \<open>Session store and event store\<close>

text \<open>
  The optional Redis client.  Each of the three lists of a session holds raw texts.  An element
  is classed by what its reader does with it:
  \<^item> \<open>Unloadable\<close>: reading it raises an exception that \<open>_load_list_entries\<close> does not catch.
    The client decodes the answers of the server, so bytes that are not UTF-8 make \<open>lrange\<close>
    raise UnicodeDecodeError; and \<open>json.loads\<close> raises RecursionError on a text nested too deep
    and a plain ValueError on an integer beyond the interpreter's digit limit, neither of which
    is a JSONDecodeError.
  \<^item> \<open>Undecodable\<close>: \<open>json.loads\<close> raises JSONDecodeError, and the element is skipped.
  \<^item> \<open>Mistyped\<close>: it decodes to a value that the reader of that list drops: \<open>int(entry)\<close>
    raises TypeError or ValueError, or the entry is not a dictionary.
  \<^item> \<open>Overflowing\<close>: it decodes to an infinite float (\<open>Infinity\<close>, \<open>1e999\<close>), on which
    \<open>int(entry)\<close> raises OverflowError; the readers of the ratings do not catch it.  The
    readers of the two lists of dictionaries drop such an element, as it is not a dictionary.
  \<^item> \<open>Stored x\<close>: the reader keeps it, as \<open>x\<close>.

  The key \<open>fh:<prefix>:<site>:<date>\<close> is the pair of site and date under the list of that
  prefix.  \<open>reachable\<close> tells whether a command sent to the server succeeds; when it is false
  the command raises \<open>RedisError\<close>.
\<close>

datatype 'a stored = Unloadable | Undecodable | Mistyped | Overflowing | Stored 'a

text \<open>
  A procedure that writes to a session in place ends by returning or by raising; either way
  the session keeps what was written to it.
\<close>

datatype 'a outcome = Returns 'a | Raises 'a

record redis =
  scores_list :: "string \<times> date \<Rightarrow> int stored list"
  detailed_feedback_list :: "string \<times> date \<Rightarrow> FeedbackEntry stored list"
  reactions_list :: "string \<times> date \<Rightarrow> ReactionEntry stored list"
  reachable :: bool

record world =
  SERVICE_DAYS :: "string \<times> date \<Rightarrow> ServiceDay option"
  REDIS_CLIENT :: "redis option"

definition service_day_storage_id :: "ServiceDay \<Rightarrow> string \<times> date" where
  "service_day_storage_id service_day = (ServiceDay.site_id service_day, date service_day)"

fun decode_entries :: "'a stored list \<Rightarrow> 'a stored list \<Rightarrow> 'a stored list option" where
  \<comment> \<open>the loop \<open>try: parsed.append(json.loads(raw)) except json.JSONDecodeError: continue\<close>;
      \<open>None\<close> is an exception that leaves it\<close>
  "decode_entries [] parsed = Some parsed"
| "decode_entries (Unloadable # rest) parsed = None"
| "decode_entries (Undecodable # rest) parsed = decode_entries rest parsed"
| "decode_entries (raw # rest) parsed = decode_entries rest (parsed @ [raw])"

definition load_list_entries ::
  "redis option \<Rightarrow> (redis \<Rightarrow> 'a stored list) \<Rightarrow> nat \<Rightarrow> 'a stored list option" where
  \<comment> \<open>\<open>_load_list_entries\<close>: the newest \<open>limit\<close> elements that decode; empty without a client
      and when \<open>lrange\<close> raises RedisError; \<open>None\<close> is an exception that it does not catch\<close>
  "load_list_entries client list_of limit =
     (case client of
        None \<Rightarrow> Some []
      | Some r \<Rightarrow>
          if \<not> reachable r then Some []
          else decode_entries (last_n limit (list_of r)) [])"

definition typed :: "'a stored list \<Rightarrow> 'a list" where
  "typed entries = List.map_filter (\<lambda>raw. case raw of Stored x \<Rightarrow> Some x | _ \<Rightarrow> None) entries"

fun parse_scores :: "int stored list \<Rightarrow> int list \<Rightarrow> int list option" where
  \<comment> \<open>the loop \<open>try: parsed_scores.append(int(entry)) except (TypeError, ValueError): continue\<close>;
      \<open>None\<close> is the OverflowError that leaves it\<close>
  "parse_scores [] parsed_scores = Some parsed_scores"
| "parse_scores (Stored x # rest) parsed_scores = parse_scores rest (parsed_scores @ [x])"
| "parse_scores (Overflowing # rest) parsed_scores = None"
| "parse_scores (_ # rest) parsed_scores = parse_scores rest parsed_scores"

definition get_feedback_scores :: "redis option \<Rightarrow> ServiceDay \<Rightarrow> (ServiceDay \<times> int list) option" where
  \<comment> \<open>\<open>None\<close> is an exception of the load or the OverflowError of \<open>int(entry)\<close>, raised before
      anything is written\<close>
  "get_feedback_scores client service_day = do {
     cached \<leftarrow> load_list_entries client
                 (\<lambda>r. scores_list r (service_day_storage_id service_day))
                 FEEDBACK_SCORE_HISTORY_LIMIT;
     parsed_scores \<leftarrow> (if client \<noteq> None \<and> cached \<noteq> [] then parse_scores cached [] else Some []);
     Some (if client \<noteq> None \<and> cached \<noteq> [] \<and> parsed_scores \<noteq> []
           then (service_day\<lparr>feedback_scores := parsed_scores\<rparr>, parsed_scores)
           else (service_day, last_n FEEDBACK_SCORE_HISTORY_LIMIT (feedback_scores service_day)))
   }"

definition get_detailed_feedback_entries ::
  "redis option \<Rightarrow> ServiceDay \<Rightarrow> nat \<Rightarrow> (ServiceDay \<times> FeedbackEntry list) option" where
  \<comment> \<open>\<open>None\<close> is an exception of the load\<close>
  "get_detailed_feedback_entries client service_day limit = do {
     cached \<leftarrow> load_list_entries client
                 (\<lambda>r. detailed_feedback_list r (service_day_storage_id service_day))
                 (max limit DETAILED_FEEDBACK_HISTORY_LIMIT);
     let entries = typed cached;
     Some (if client \<noteq> None \<and> cached \<noteq> [] \<and> entries \<noteq> []
           then (service_day\<lparr>detailed_feedback := entries\<rparr>, last_n limit entries)
           else (service_day, last_n limit (detailed_feedback service_day)))
   }"

definition get_recent_reactions ::
  "redis option \<Rightarrow> ServiceDay \<Rightarrow> int \<Rightarrow> (ServiceDay \<times> ReactionEntry list) option" where
  \<comment> \<open>\<open>None\<close> is an exception of the load\<close>
  "get_recent_reactions client service_day limit =
     (if limit \<le> 0 then Some (service_day, [])
      else do {
        entries \<leftarrow> load_list_entries client
                     (\<lambda>r. reactions_list r (service_day_storage_id service_day))
                     (max (nat limit) MAX_REACTIONS_STORED);
        let typed_entries = typed entries;
        Some (if client \<noteq> None \<and> entries \<noteq> [] \<and> typed_entries \<noteq> []
              then (service_day\<lparr>reaction_stream := typed_entries\<rparr>,
                    last_n (nat limit) typed_entries)
              else (service_day, last_n (nat limit) (reaction_stream service_day)))
      })"

definition hydrate_service_day_from_store :: "redis option \<Rightarrow> ServiceDay \<Rightarrow> ServiceDay outcome" where
  \<comment> \<open>\<open>Raises\<close> is an exception of one of the three loads or the OverflowError of \<open>int(raw)\<close>,
      with the session as the assignments before it have left it\<close>
  "hydrate_service_day_from_store client service_day =
     (if client = None then Returns service_day
      else (let sid = service_day_storage_id service_day
            in case load_list_entries client (\<lambda>r. reactions_list r sid) MAX_REACTIONS_STORED of
                 None \<Rightarrow> Raises service_day
               | Some reactions \<Rightarrow>
                   (let sd1 = (if reactions \<noteq> []
                               then service_day\<lparr>reaction_stream := typed reactions\<rparr>
                               else service_day)
                    in case do {
                         scores_raw \<leftarrow> load_list_entries client (\<lambda>r. scores_list r sid)
                                         FEEDBACK_SCORE_HISTORY_LIMIT;
                         parsed_scores \<leftarrow> (if scores_raw \<noteq> [] then parse_scores scores_raw []
                                            else Some []);
                         Some (scores_raw, parsed_scores)
                       } of
                         None \<Rightarrow> Raises sd1
                       | Some (scores_raw, parsed_scores) \<Rightarrow>
                           (let sd2 = (if scores_raw \<noteq> [] \<and> parsed_scores \<noteq> []
                                       then sd1\<lparr>feedback_scores := parsed_scores\<rparr> else sd1)
                            in case load_list_entries client (\<lambda>r. detailed_feedback_list r sid)
                                      DETAILED_FEEDBACK_HISTORY_LIMIT of
                                 None \<Rightarrow> Raises sd2
                               | Some detailed_entries \<Rightarrow>
                                   Returns (if detailed_entries \<noteq> []
                                            then sd2\<lparr>detailed_feedback := typed detailed_entries\<rparr>
                                            else sd2)))))"

definition clear_service_day_storage :: "redis option \<Rightarrow> ServiceDay \<Rightarrow> redis option" where
  \<comment> \<open>\<open>_clear_service_day_storage\<close>: one \<open>delete\<close> of the three keys; when it raises, the
      RedisError is logged and the lists stay\<close>
  "clear_service_day_storage client service_day =
     (case client of
        None \<Rightarrow> None
      | Some r \<Rightarrow>
          if \<not> reachable r then Some r
          else (let sid = service_day_storage_id service_day
                in Some (r\<lparr>scores_list := (scores_list r)(sid := []),
                            detailed_feedback_list := (detailed_feedback_list r)(sid := []),
                            reactions_list := (reactions_list r)(sid := [])\<rparr>)))"

subsection \<open>Sessions\<close>

text \<open>
  \<open>SERVICE_DAY_PRESETS\<close> has one entry, for the default site; every other site starts from
  the defaults written in \<open>get_or_create_service_day\<close>.
\<close>

definition new_service_day :: "string \<Rightarrow> date \<Rightarrow> ServiceDay" where
  "new_service_day sid today =
     (let preset = (sid = DEFAULT_SITE_ID)
      in \<lparr>ServiceDay.site_id = sid, date = today,
          total_expected_diners = (if preset then 360 else 120),
          diners_so_far = (if preset then 148 else 0),
          ServiceDay.wave_index = (if preset then 2 else 0),
          ServiceDay.pan_fill_percent = (if preset then 46 else 60),
          feedback_scores = (if preset then [3, 3, 2, 3, 3, 1, 3, 2, 3, 2, 3, 3] else []),
          detailed_feedback = [], reaction_stream = [], last_decision = None,
          waves = get_wave_template (get_site_config sid)\<rparr>)"

definition get_or_create_service_day :: "world \<Rightarrow> string \<Rightarrow> date \<Rightarrow> world \<times> ServiceDay option" where
  \<comment> \<open>the new session is registered before it is hydrated, so it stays registered when the
      hydration raises; the second component is then \<open>None\<close>\<close>
  "get_or_create_service_day w sid today =
     (case SERVICE_DAYS w (sid, today) of
        Some service_day \<Rightarrow> (w, Some service_day)
      | None \<Rightarrow>
          (case hydrate_service_day_from_store (REDIS_CLIENT w) (new_service_day sid today) of
             Returns service_day \<Rightarrow>
               (w\<lparr>SERVICE_DAYS := (SERVICE_DAYS w)((sid, today) \<mapsto> service_day)\<rparr>, Some service_day)
           | Raises service_day \<Rightarrow>
               (w\<lparr>SERVICE_DAYS := (SERVICE_DAYS w)((sid, today) \<mapsto> service_day)\<rparr>, None)))"

definition put_service_day :: "world \<Rightarrow> string \<times> date \<Rightarrow> ServiceDay \<Rightarrow> world" where
  \<comment> \<open>the session is one shared object: a write to one of its fields is a write to the entry
      of the registry under which the request found it\<close>
  "put_service_day w key service_day = w\<lparr>SERVICE_DAYS := (SERVICE_DAYS w)(key \<mapsto> service_day)\<rparr>"

section \<open>Decision engine\<close>

datatype signal = Critical | Warning | Ready

definition signal_level :: "int \<Rightarrow> int \<Rightarrow> signal" where
  \<comment> \<open>the \<open>if\<close>/\<open>elif\<close>/\<open>else\<close> chain of \<open>compute_current_state\<close> that sets \<open>signal_level\<close>\<close>
  "signal_level grams pan_fill =
     (if 1800 \<le> grams \<or> pan_fill \<le> 35 then Critical
      else if 600 \<le> grams \<or> pan_fill \<le> 55 then Warning
      else Ready)"

text \<open>
  What \<open>compute_current_state\<close> reads from outside the session: the clock (minute of the day,
  weekday, the \<open>isoformat()\<close> text of \<open>datetime.now()\<close>, \<open>datetime.utcnow()\<close> in microseconds),
  today's date, the \<open>DEMO_MODE\<close> switch, and the service slot of today's menu day when the
  menu calendar has one for the primary slot.
\<close>

record env =
  now_minutes :: int
  now_iso :: string
  utc_now :: int
  weekday :: nat
  today :: date
  DEMO_MODE :: bool
  menu_service_slot :: "string option"

text \<open>
  The state snapshot.  Of the dictionary that the source returns, the fields kept here are the
  computed numbers, the signal and the decision card; the headline texts, the station brief
  and the other display strings are not modelled.
\<close>

record snapshot =
  snap_wave_index :: int
  snap_predicted_diners_next_wave :: int
  snap_suggested_grams :: int
  snap_pan_fill_percent :: int
  snap_satisfaction_percent :: "int option"
  snap_feedback_multiplier :: pyfloat
  snap_remaining_diners :: int
  snap_signal_level :: signal
  snap_last_decision :: DecisionCard

definition target_wave_index :: "int \<Rightarrow> WaveState list \<Rightarrow> int \<Rightarrow> int" where
  "target_wave_index now wvs current_wave_idx =
     (case wvs of
        [] \<Rightarrow> current_wave_idx
      | w0 # _ \<Rightarrow>
          if now < start_time w0 then index w0
          else min (current_wave_idx + 1) (index (last wvs)))"

definition demo_predicted :: "bool \<Rightarrow> bool \<Rightarrow> int \<Rightarrow> int \<Rightarrow> int" where
  \<comment> \<open>the two adjustments of the prediction under \<open>DEMO_MODE\<close>\<close>
  "demo_predicted demo lunch_finished diners_remaining predicted =
     (if demo
      then (let p1 = (if lunch_finished \<and> diners_remaining \<noteq> 0
                      then max predicted (min (max (diners_remaining div 3) 14) 40)
                      else predicted)
            in if p1 \<le> 0 \<and> diners_remaining \<noteq> 0 then max 12 (min diners_remaining 32) else p1)
      else predicted)"

definition demo_pan_fill :: "bool \<Rightarrow> int \<Rightarrow> int" where
  \<comment> \<open>under \<open>DEMO_MODE\<close> a pan at 75 percent or more is taken down by 20 points\<close>
  "demo_pan_fill demo pan_fill = (if demo \<and> 75 \<le> pan_fill then max 45 (pan_fill - 20) else pan_fill)"

text \<open>
  \<open>compute_current_state\<close> is modelled in three stages, in the order of the source.  \<open>None\<close>
  means that an exception left the function, so that the request fails.

  The first stage settles the wave template and the target wave of the session and reads the
  two feedback histories (from the event store when it has them).
\<close>

definition prepare_session ::
  "env \<Rightarrow> SiteConfig \<Rightarrow> redis option \<Rightarrow> ServiceDay
     \<Rightarrow> (ServiceDay \<times> int \<times> int list \<times> FeedbackEntry list) option" where
  "prepare_session e site client service_day = do {
     let wvs = (if waves service_day = [] then get_wave_template site else waves service_day);
     let service_day = service_day\<lparr>waves := wvs\<rparr>;
     current_wave_idx \<leftarrow> get_current_wave_index (now_minutes e) site;
     let target_wave_idx = target_wave_index (now_minutes e) wvs current_wave_idx;
     let service_day = service_day\<lparr>ServiceDay.wave_index := target_wave_idx\<rparr>;
     (service_day, scores) \<leftarrow> get_feedback_scores client service_day;
     (service_day, detailed_entries) \<leftarrow>
        get_detailed_feedback_entries client service_day DETAILED_FEEDBACK_HISTORY_LIMIT;
     Some (service_day, target_wave_idx, scores, detailed_entries)
   }"

text \<open>
  The second stage is the computation proper: multiplier, prediction, the pan adjustment of
  the demo mode, grams, satisfaction, the new decision card and the signal.
  \<open>served_pct\<close> is computed although only a display field uses it, because its division can
  raise.
\<close>

definition decide ::
  "builtins \<Rightarrow> env \<Rightarrow> SiteConfig \<Rightarrow> ServiceDay \<Rightarrow> int \<Rightarrow> int list \<Rightarrow> FeedbackEntry list
     \<Rightarrow> (ServiceDay \<times> snapshot) option" where
  "decide b e site service_day target_wave_idx scores detailed_entries = do {
     feedback_multiplier \<leftarrow> compute_feedback_demand_multiplier b (utc_now e) scores detailed_entries;
     let lunch_finished = (lunch_window_end site \<le> now_minutes e);
     predicted \<leftarrow>
       (if \<not> lunch_finished \<or> DEMO_MODE e
        then predict_next_wave (weekday e) service_day target_wave_idx feedback_multiplier
        else Some 0);
     let diners_remaining = max (total_expected_diners service_day - diners_so_far service_day) 0;
     let predicted = demo_predicted (DEMO_MODE e) lunch_finished diners_remaining predicted;
     let pan = demo_pan_fill (DEMO_MODE e) (ServiceDay.pan_fill_percent service_day);
     let service_day = service_day\<lparr>ServiceDay.pan_fill_percent := pan\<rparr>;
     grams \<leftarrow> compute_suggested_grams predicted pan (portion_grams site)
                (pan_capacity_portions site);
     satisfaction \<leftarrow> compute_satisfaction_percent scores;
     portions \<leftarrow> (if portion_grams site \<noteq> 0 then int_truediv grams (portion_grams site)
                   else Some (Fin 0));
     served_pct \<leftarrow>
       (if total_expected_diners service_day \<noteq> 0
        then map_option (\<lambda>q. fmul q (lit 100))
               (int_truediv (diners_so_far service_day) (total_expected_diners service_day))
        else Some (Fin 0));
     let card_status =
           (case last_decision service_day of
              Some old \<Rightarrow> if DecisionCard.wave_index old = target_wave_idx then status old else Pending
            | None \<Rightarrow> Pending);
     let slot = (case menu_service_slot e of Some s \<Rightarrow> s | None \<Rightarrow> PRIMARY_SERVICE_SLOT);
     let decision =
           \<lparr>DecisionCard.site_id = SiteConfig.site_id site,
            DecisionCard.wave_index = target_wave_idx,
            timestamp = now_iso e,
            predicted_diners_next_wave = predicted,
            suggested_grams = grams,
            DecisionCard.pan_fill_percent = pan,
            satisfaction_percent = satisfaction,
            suggested_portions = portions,
            service_slot = slot,
            status = card_status\<rparr>;
     Some (service_day\<lparr>last_decision := Some decision\<rparr>,
           \<lparr>snap_wave_index = target_wave_idx,
            snap_predicted_diners_next_wave = predicted,
            snap_suggested_grams = grams,
            snap_pan_fill_percent = pan,
            snap_satisfaction_percent = satisfaction,
            snap_feedback_multiplier = feedback_multiplier,
            snap_remaining_diners = diners_remaining,
            snap_signal_level = signal_level grams pan,
            snap_last_decision = decision\<rparr>)
   }"

text \<open>
  The third stage reads the recent reactions for the snapshot, which may refresh the
  session's reaction list from the event store.
\<close>

definition compute_current_state :: "builtins \<Rightarrow> env \<Rightarrow> world \<Rightarrow> string \<Rightarrow> (world \<times> snapshot) option" where
  "compute_current_state b e w sid = do {
     let site = get_site_config sid;
     let (w, found) = get_or_create_service_day w sid (today e);
     service_day \<leftarrow> found;
     (service_day, target_wave_idx, scores, detailed_entries) \<leftarrow>
        prepare_session e site (REDIS_CLIENT w) service_day;
     (service_day, snap) \<leftarrow> decide b e site service_day target_wave_idx scores detailed_entries;
     (service_day, reactions) \<leftarrow> get_recent_reactions (REDIS_CLIENT w) service_day 10;
     Some (put_service_day w (sid, today e) service_day, snap)
   }"

section \<open>Staff actions\<close>

text \<open>
  The body of a \<open>done\<close> or \<open>skip\<close> request is what \<open>request.get_json(silent=True)\<close> returns: a
  JSON value, \<open>null\<close> when the request has no body or one that does not parse.  The guard
  reads it as Python does: by its truth value, by \<open>.get\<close>, which only a dictionary has, by
  \<open>int(...)\<close> of the wave index and by \<open>str(...)\<close> of the slot.
\<close>

fun truthy :: "json \<Rightarrow> bool" where
  "truthy JNull = False"
| "truthy (JBool x) = x"
| "truthy (JInt i) = (i \<noteq> 0)"
| "truthy (JFloat (Fin q)) = (q \<noteq> 0)"
| "truthy (JFloat x) = True"
| "truthy (JStr s) = (s \<noteq> [])"
| "truthy (JArr xs) = (xs \<noteq> [])"
| "truthy (JObj obj) = (obj \<noteq> [])"

definition or_empty :: "json \<Rightarrow> json" where
  \<comment> \<open>\<open>body or {}\<close>\<close>
  "or_empty body = (if truthy body then body else JObj [])"

definition dict_get :: "(string \<times> json) list \<Rightarrow> string \<Rightarrow> json" where
  \<comment> \<open>\<open>payload.get(key)\<close>: \<open>None\<close> for a missing key\<close>
  "dict_get obj key = (case map_of obj key of Some v \<Rightarrow> v | None \<Rightarrow> JNull)"

fun py_int :: "builtins \<Rightarrow> json \<Rightarrow> int option" where
  \<comment> \<open>\<open>int(v)\<close>; \<open>None\<close> is TypeError (\<open>None\<close>, a list, a dictionary), ValueError (NaN, a string
      that is no integer) or OverflowError (an infinity)\<close>
  "py_int b (JBool x) = Some (if x then 1 else 0)"
| "py_int b (JInt i) = Some i"
| "py_int b (JFloat x) = int_of_float x"
| "py_int b (JStr s) = int_of_str b s"
| "py_int b v = None"

definition py_str :: "builtins \<Rightarrow> json \<Rightarrow> string" where
  \<comment> \<open>\<open>str(v)\<close>\<close>
  "py_str b v = (case v of JStr s \<Rightarrow> s | _ \<Rightarrow> str_of b v)"

definition get_matching_decision :: "builtins \<Rightarrow> ServiceDay \<Rightarrow> json \<Rightarrow> DecisionCard option option" where
  \<comment> \<open>the outer \<open>None\<close> is a raised exception: AttributeError when a body that is true is not a
      dictionary, or the exception of \<open>int(wave_idx)\<close>; the inner \<open>None\<close> is Python's \<open>None\<close>\<close>
  "get_matching_decision b service_day payload =
     (case last_decision service_day of
        None \<Rightarrow> Some None
      | Some decision \<Rightarrow>
          if \<not> truthy payload then Some (Some decision)
          else case payload of
            JObj obj \<Rightarrow>
              (let wave_idx = dict_get obj ''decision_wave_index'';
                   ts = dict_get obj ''decision_timestamp'';
                   slot = dict_get obj ''service_slot''
               in case (if wave_idx = JNull then Some False
                        else map_option (\<lambda>i. DecisionCard.wave_index decision \<noteq> i)
                               (py_int b wave_idx)) of
                    None \<Rightarrow> None
                  | Some wave_differs \<Rightarrow>
                      if wave_differs then Some None
                      else if ts \<noteq> JNull \<and> ts \<noteq> JStr (timestamp decision) then Some None
                      else if slot \<noteq> JNull \<and> service_slot decision \<noteq> py_str b slot then Some None
                      else Some (Some decision))
          | _ \<Rightarrow> None)"

definition adjust_pan_after_refill :: "ServiceDay \<Rightarrow> int \<Rightarrow> int \<Rightarrow> int \<Rightarrow> ServiceDay option" where
  \<comment> \<open>\<open>None\<close> is ZeroDivisionError (no portion size, no capacity) or OverflowError.
      \<open>min(capacity_portions, x)\<close> compares the int with the float exactly and keeps the int
      unless the float is smaller\<close>
  "adjust_pan_after_refill service_day grams portion_g capacity_portions = do {
     portions_added \<leftarrow> (if grams \<noteq> 0 then int_truediv grams portion_g else Some (Fin 0));
     pf \<leftarrow> float_of_int (ServiceDay.pan_fill_percent service_day);
     fraction \<leftarrow> fdiv pf (lit 100);
     cap \<leftarrow> float_of_int capacity_portions;
     let current_portions = fmul fraction cap;
     let filled = fadd current_portions portions_added;
     ratio \<leftarrow>
       (if flt filled (Fin (of_int capacity_portions)) then fdiv filled cap
        else int_truediv capacity_portions capacity_portions);
     pan \<leftarrow> int_of_float (fmul ratio (lit 100));
     Some (service_day\<lparr>ServiceDay.pan_fill_percent := pan\<rparr>)
   }"

datatype response =
  Ok_done int | Ok_skipped | Ok_diners int | Ok_reset | StaleDecision | ServerError

definition api_done :: "builtins \<Rightarrow> world \<Rightarrow> string \<Rightarrow> date \<Rightarrow> json \<Rightarrow> world \<times> response" where
  \<comment> \<open>\<open>ServerError\<close>: an exception left the handler before it wrote to the session it found\<close>
  "api_done b w sid day body =
     (let site = get_site_config sid;
          (w, found) = get_or_create_service_day w sid day
      in case found of
           None \<Rightarrow> (w, ServerError)
         | Some service_day \<Rightarrow>
             (case get_matching_decision b service_day (or_empty body) of
                None \<Rightarrow> (w, ServerError)
              | Some None \<Rightarrow> (w, StaleDecision)
              | Some (Some decision) \<Rightarrow>
                  (case adjust_pan_after_refill service_day (suggested_grams decision)
                          (portion_grams site) (pan_capacity_portions site) of
                     None \<Rightarrow> (w, ServerError)
                   | Some service_day \<Rightarrow>
                       (put_service_day w (sid, day)
                          (service_day\<lparr>last_decision := Some (decision\<lparr>status := Done\<rparr>)\<rparr>),
                        Ok_done (ServiceDay.pan_fill_percent service_day)))))"

definition api_skip :: "builtins \<Rightarrow> world \<Rightarrow> string \<Rightarrow> date \<Rightarrow> json \<Rightarrow> world \<times> response" where
  "api_skip b w sid day body =
     (let (w, found) = get_or_create_service_day w sid day
      in case found of
           None \<Rightarrow> (w, ServerError)
         | Some service_day \<Rightarrow>
             (case get_matching_decision b service_day (or_empty body) of
                None \<Rightarrow> (w, ServerError)
              | Some None \<Rightarrow> (w, StaleDecision)
              | Some (Some decision) \<Rightarrow>
                  (put_service_day w (sid, day)
                     (service_day\<lparr>last_decision := Some (decision\<lparr>status := Skipped\<rparr>)\<rparr>),
                   Ok_skipped)))"

definition api_increment_diner :: "world \<Rightarrow> string \<Rightarrow> date \<Rightarrow> int option \<Rightarrow> world \<times> response" where
  \<comment> \<open>the argument is \<open>int(data.get("delta", 1))\<close> before the default: \<open>None\<close> when the body has
      no \<open>delta\<close>\<close>
  "api_increment_diner w sid day delta_field =
     (let (w, found) = get_or_create_service_day w sid day
      in case found of
           None \<Rightarrow> (w, ServerError)
         | Some service_day \<Rightarrow>
             (let delta = (case delta_field of Some d \<Rightarrow> d | None \<Rightarrow> 1);
                  service_day = service_day\<lparr>diners_so_far := max (diners_so_far service_day + delta) 0\<rparr>
              in (put_service_day w (sid, day) service_day, Ok_diners (diners_so_far service_day))))"

definition api_reset_day :: "world \<Rightarrow> string \<Rightarrow> date \<Rightarrow> world \<times> response" where
  \<comment> \<open>when the creation of the session raises, the request fails before the \<open>delete\<close>\<close>
  "api_reset_day w sid day =
     (let key = (sid, day);
          (w, found) =
            (case SERVICE_DAYS w key of
               Some service_day \<Rightarrow>
                 (w\<lparr>SERVICE_DAYS := (SERVICE_DAYS w)(key := None)\<rparr>, Some service_day)
             | None \<Rightarrow> get_or_create_service_day w sid day)
      in case found of
           None \<Rightarrow> (w, ServerError)
         | Some service_day \<Rightarrow>
             (let w = w\<lparr>REDIS_CLIENT := clear_service_day_storage (REDIS_CLIENT w) service_day\<rparr>
              in (w\<lparr>SERVICE_DAYS := (SERVICE_DAYS w)(key := None)\<rparr>, Ok_reset)))"
section \<open>The specification's formulas\<close>


definition spec_satisfaction_percent :: "int list \<Rightarrow> int option" where
  "spec_satisfaction_percent scores =
     (if scores = [] then None
      else (let avg = of_int (sum_list scores) / of_nat (length scores) :: rat
            in Some (round (33 + (avg - 1) * (335 / 10)))))"

definition spec_predict_next_wave :: "nat \<Rightarrow> int \<Rightarrow> int \<Rightarrow> int \<Rightarrow> rat \<Rightarrow> int" where
  \<comment> \<open>\<open>day_of_week\<close> (Monday is 0), \<open>totalExpected\<close>, \<open>dinersSoFar\<close>, \<open>waveIndex\<close>, \<open>feedbackMultiplier\<close>\<close>
  "spec_predict_next_wave day_of_week totalExpected dinersSoFar waveIndex feedbackMultiplier =
     (let idx = min (max waveIndex 0) 4;
          pattern = of_int (EXPECTED_WAVES ! nat idx) :: rat;
          expectedInWave = (if 5 \<le> day_of_week then pattern * (7 / 10) else pattern);
          remainingExpected = max (totalExpected - dinersSoFar) 0;
          remainingWaves = max (5 - waveIndex) 1;
          baseForWave = of_int remainingExpected / of_int remainingWaves;
          predicted = (1 / 2 * expectedInWave + 1 / 2 * baseForWave) * feedbackMultiplier
      in max (trunc_rat predicted) 0)"


definition satisfaction_value :: "int list \<Rightarrow> pyfloat option" where
  \<comment> \<open>\<open>33 + (avg - 1) * 33.5\<close> for a list that is not empty\<close>
  "satisfaction_value scores = do {
     avg \<leftarrow> int_truediv (sum_list scores) (int (length scores));
     Some (fadd (Fin 33) (fmul (fsub avg (Fin 1)) (lit (335 / 10))))
   }"

definition weekend_pattern :: "int \<Rightarrow> int option" where
  \<comment> \<open>\<open>int(pattern * 0.7)\<close>\<close>
  "weekend_pattern pattern = do { e \<leftarrow> float_of_int pattern; int_of_float (fmul e (lit (7 / 10))) }"

definition blended_prediction :: "nat \<Rightarrow> int \<Rightarrow> int \<Rightarrow> int \<Rightarrow> pyfloat \<Rightarrow> pyfloat option" where
  \<comment> \<open>\<open>(0.5 * expectedInWave + 0.5 * baseForWave) * feedbackMultiplier\<close>\<close>
  "blended_prediction day_of_week totalExpected dinersSoFar waveIndex feedbackMultiplier = do {
     let pattern = EXPECTED_WAVES ! nat (min (max waveIndex 0) 4);
     expectedInWave \<leftarrow> (if 5 \<le> day_of_week then weekend_pattern pattern else Some pattern);
     baseForWave \<leftarrow> int_truediv (max (totalExpected - dinersSoFar) 0) (max (5 - waveIndex) 1);
     e \<leftarrow> float_of_int expectedInWave;
     Some (fmul (fadd (fmul (lit (1 / 2)) e) (fmul (lit (1 / 2)) baseForWave)) feedbackMultiplier)
   }"

section \<open>Example states\<close>

text \<open>
  Concrete states at which the theorems below are evaluated.  The built-ins are the plain
  left-to-right \<open>sum\<close>, a \<open>float\<close> and an \<open>int\<close> that read the numerals \<open>1\<close> to \<open>5\<close>, and a \<open>str\<close>
  that is right on \<open>null\<close> and the two truth values.
\<close>

definition example_builtins :: builtins where
  "example_builtins =
     \<lparr>float_of_str = map_of [(''1'', Fin 1), (''2'', Fin 2), (''3'', Fin 3), (''4'', Fin 4),
                              (''5'', Fin 5)],
      float_sum = foldl fadd (Fin 0),
      int_of_str = map_of [(''1'', 1), (''2'', 2), (''3'', 3), (''4'', 4), (''5'', 5)],
      str_of = (\<lambda>v. case v of JBool True \<Rightarrow> ''True'' | JBool False \<Rightarrow> ''False''
                        | _ \<Rightarrow> ''None'')\<rparr>"

definition example_env :: env where
  \<comment> \<open>a Monday at 11:40, inside the second wave\<close>
  "example_env =
     \<lparr>now_minutes = 700, now_iso = ''2025-03-03T11:40:00'', utc_now = 0, weekday = 0,
      today = 0, DEMO_MODE = True, menu_service_slot = None\<rparr>"

definition empty_world :: world where
  "empty_world = \<lparr>SERVICE_DAYS = Map.empty, REDIS_CLIENT = None\<rparr>"

definition example_card :: DecisionCard where
  \<comment> \<open>a card for the last wave that asks for no refill\<close>
  "example_card =
     \<lparr>DecisionCard.site_id = ''flavoria'', DecisionCard.wave_index = 4,
      timestamp = ''2025-03-03T13:05:00'', predicted_diners_next_wave = 7, suggested_grams = 0,
      DecisionCard.pan_fill_percent = 58, satisfaction_percent = Some 86,
      suggested_portions = Fin 0, service_slot = ''favourite_1'', status = Pending\<rparr>"

definition example_day :: ServiceDay where
  \<comment> \<open>the session of the default site with every expected diner served and the pan at 58
      percent\<close>
  "example_day =
     (new_service_day ''flavoria'' 0)
       \<lparr>diners_so_far := 360, ServiceDay.wave_index := 4, ServiceDay.pan_fill_percent := 58,
        last_decision := Some example_card\<rparr>"

definition example_world :: world where
  "example_world =
     \<lparr>SERVICE_DAYS = [(''flavoria'', 0) \<mapsto> example_day], REDIS_CLIENT = None\<rparr>"

definition matching_payload :: json where
  "matching_payload =
     JObj [(''decision_wave_index'', JInt 4), (''decision_timestamp'', JStr ''2025-03-03T13:05:00''),
           (''service_slot'', JStr ''favourite_1'')]"

definition stale_payload :: json where
  \<comment> \<open>the identity of the card of the wave before\<close>
  "stale_payload =
     JObj [(''decision_wave_index'', JInt 3), (''decision_timestamp'', JStr ''2025-03-03T12:35:00''),
           (''service_slot'', JStr ''favourite_1'')]"

definition coerced_payload :: json where
  \<comment> \<open>the identity of the example card, but with the wave index \<open>4.5\<close>\<close>
  "coerced_payload =
     JObj [(''decision_wave_index'', JFloat (Fin (9 / 2))),
           (''decision_timestamp'', JStr ''2025-03-03T13:05:00''),
           (''service_slot'', JStr ''favourite_1'')]"

definition unreadable_payload :: json where
  \<comment> \<open>the identity of the example card, but with a wave index that is no number\<close>
  "unreadable_payload =
     JObj [(''decision_wave_index'', JStr ''abc''),
           (''decision_timestamp'', JStr ''2025-03-03T13:05:00''),
           (''service_slot'', JStr ''favourite_1'')]"

definition refill_card :: DecisionCard where
  \<comment> \<open>a card that asks for five portions\<close>
  "refill_card =
     \<lparr>DecisionCard.site_id = ''flavoria'', DecisionCard.wave_index = 2,
      timestamp = ''2025-03-03T11:40:00'', predicted_diners_next_wave = 15, suggested_grams = 800,
      DecisionCard.pan_fill_percent = 50, satisfaction_percent = Some 86,
      suggested_portions = Fin 5, service_slot = ''favourite_1'', status = Pending\<rparr>"

definition refill_day :: ServiceDay where
  \<comment> \<open>the session of the default site with the pan half full\<close>
  "refill_day =
     (new_service_day ''flavoria'' 0)
       \<lparr>ServiceDay.pan_fill_percent := 50, last_decision := Some refill_card\<rparr>"

definition refill_world :: world where
  "refill_world = \<lparr>SERVICE_DAYS = [(''flavoria'', 0) \<mapsto> refill_day], REDIS_CLIENT = None\<rparr>"

definition empty_redis :: redis where
  "empty_redis =
     \<lparr>scores_list = (\<lambda>k. []), detailed_feedback_list = (\<lambda>k. []), reactions_list = (\<lambda>k. []),
      reachable = True\<rparr>"

definition unreachable_world :: world where
  \<comment> \<open>no session in memory, one rating of the site \<open>cafe\<close> in the event store, and the store
      down\<close>
  "unreachable_world =
     \<lparr>SERVICE_DAYS = Map.empty,
      REDIS_CLIENT = Some (empty_redis\<lparr>scores_list := (\<lambda>k. [])((''cafe'', 0) := [Stored 1]),
                                        reachable := False\<rparr>)\<rparr>"

definition overflowing_world :: world where
  \<comment> \<open>no session in memory, the store up, and one rating of the site \<open>cafe\<close> in it that is
      \<open>Infinity\<close>\<close>
  "overflowing_world =
     \<lparr>SERVICE_DAYS = Map.empty,
      REDIS_CLIENT = Some (empty_redis\<lparr>scores_list := (\<lambda>k. [])((''cafe'', 0) := [Overflowing])\<rparr>)\<rparr>"

definition with_reachable :: "bool \<Rightarrow> world \<Rightarrow> world" where
  \<comment> \<open>the same world with the event store up or down\<close>
  "with_reachable up w = w\<lparr>REDIS_CLIENT := map_option (\<lambda>r. r\<lparr>reachable := up\<rparr>) (REDIS_CLIENT w)\<rparr>"

definition history_readable :: "redis \<Rightarrow> string \<times> date \<Rightarrow> bool" where
  \<comment> \<open>no element of the three lists of the key makes its reader raise\<close>
  "history_readable r key =
     (Unloadable \<notin> set (reactions_list r key) \<and> Unloadable \<notin> set (scores_list r key)
      \<and> Overflowing \<notin> set (scores_list r key)
      \<and> Unloadable \<notin> set (detailed_feedback_list r key))"

definition keyed_by_identity :: "world \<Rightarrow> bool" where
  \<comment> \<open>every session is registered under its own site and date, as \<open>get_or_create_service_day\<close>
      registers it\<close>
  "keyed_by_identity w =
     (\<forall>key. case SERVICE_DAYS w key of None \<Rightarrow> True
              | Some service_day \<Rightarrow> service_day_storage_id service_day = key)"

definition cafe_card :: DecisionCard where
  \<comment> \<open>the card and the snapshot that the first request of the site \<open>cafe\<close> gets in the
      example environment\<close>
  "cafe_card =
     \<lparr>DecisionCard.site_id = ''flavoria'', DecisionCard.wave_index = 2,
      timestamp = ''2025-03-03T11:40:00'', predicted_diners_next_wave = 40,
      suggested_grams = 4000, DecisionCard.pan_fill_percent = 60, satisfaction_percent = None,
      suggested_portions = Fin 25, service_slot = ''favourite_1'', status = Pending\<rparr>"

definition cafe_snapshot :: snapshot where
  "cafe_snapshot =
     \<lparr>snap_wave_index = 2, snap_predicted_diners_next_wave = 40, snap_suggested_grams = 4000,
      snap_pan_fill_percent = 60, snap_satisfaction_percent = None,
      snap_feedback_multiplier = Fin 1, snap_remaining_diners = 120,
      snap_signal_level = Critical, snap_last_decision = cafe_card\<rparr>"

section \<open>Rounding to a double\<close>

lemma pow2_add: "(2::rat) powi a * 2 powi b = 2 powi (a + b)"
  by (simp add: power_int_add)

lemma pow2_nonneg_int: "0 \<le> n \<Longrightarrow> (2::rat) powi n = of_int (2 ^ nat n)"
  by (simp add: power_int_nonneg_exp)

lemma pow2_less_imp_less:
  assumes "(2::rat) powi a < 2 powi b"
  shows "a < b"
proof (rule ccontr)
  assume "\<not> a < b"
  then have "(2::rat) powi b \<le> 2 powi a" by (intro power_int_increasing) auto
  then show False using assms by simp
qed

lemma bitlen_powi_bounds:
  assumes "0 < a"
  shows "(2::rat) powi (bitlen a - 1) \<le> of_int a" "of_int a < (2::rat) powi (bitlen a)"
proof -
  from assms have b1: "1 \<le> bitlen a" by (auto simp: bitlen_alt_def)
  have lo: "2 ^ nat (bitlen a - 1) \<le> a" and hi: "a < 2 ^ nat (bitlen a)"
    using bitlen_bounds[OF assms] by auto
  have "(of_int (2 ^ nat (bitlen a - 1)) :: rat) \<le> of_int a"
    using lo by (simp only: of_int_le_iff)
  then show "(2::rat) powi (bitlen a - 1) \<le> of_int a"
    using b1 by (simp add: power_int_nonneg_exp)
  have "(of_int a :: rat) < of_int (2 ^ nat (bitlen a))"
    using hi by (simp only: of_int_less_iff)
  then show "of_int a < (2::rat) powi (bitlen a)"
    using b1 by (simp add: power_int_nonneg_exp)
qed

lemma ilog2_bounds:
  assumes "0 < x"
  shows "2 powi (ilog2 x) \<le> x \<and> x < 2 powi (ilog2 x + 1)"
proof -
  obtain a b where q: "quotient_of x = (a, b)" by (cases "quotient_of x")
  have bpos: "0 < b" using q by (rule quotient_of_denom_pos)
  have xab: "x = of_int a / of_int b" using q by (rule quotient_of_div)
  have apos: "0 < a" using assms bpos xab by (simp add: zero_less_divide_iff)
  define e0 where "e0 = bitlen a - bitlen b"
  have bR: "0 < (of_int b :: rat)" using bpos by simp
  have up: "x < 2 powi (e0 + 1)"
  proof -
    have "of_int a < (2::rat) powi (bitlen a)" using bitlen_powi_bounds(2)[OF apos] .
    also have "\<dots> = 2 powi (e0 + 1) * 2 powi (bitlen b - 1)"
      by (simp add: e0_def pow2_add)
    also have "\<dots> \<le> 2 powi (e0 + 1) * of_int b"
      using bitlen_powi_bounds(1)[OF bpos] by (intro mult_left_mono) auto
    finally have "of_int a < 2 powi (e0 + 1) * (of_int b :: rat)" .
    then show ?thesis using bR xab by (simp add: pos_divide_less_eq)
  qed
  have low: "2 powi (e0 - 1) \<le> x"
  proof -
    have "2 powi (e0 - 1) * (of_int b :: rat) \<le> 2 powi (e0 - 1) * 2 powi (bitlen b)"
      using bitlen_powi_bounds(2)[OF bpos] by (intro mult_left_mono) auto
    also have "\<dots> = 2 powi (bitlen a - 1)"
      by (simp add: e0_def pow2_add)
    also have "\<dots> \<le> of_int a" using bitlen_powi_bounds(1)[OF apos] .
    finally show ?thesis using bR xab by (simp add: pos_le_divide_eq)
  qed
  have il: "ilog2 x = (if 2 powi e0 \<le> x then e0 else e0 - 1)"
    by (simp add: ilog2_def q e0_def Let_def)
  show ?thesis
  proof (cases "2 powi e0 \<le> x")
    case True
    then show ?thesis using up il by simp
  next
    case False
    then show ?thesis using low il by simp
  qed
qed

lemma ilog2_unique:
  assumes "2 powi e \<le> x" "x < 2 powi (e + 1)"
  shows "ilog2 x = e"
proof -
  have xpos: "0 < x"
  proof -
    have "(0::rat) < 2 powi e" by simp
    then show ?thesis using assms(1) by linarith
  qed
  note b = ilog2_bounds[OF xpos]
  have "(2::rat) powi (ilog2 x) < 2 powi (e + 1)" using b assms by linarith
  then have a: "ilog2 x < e + 1" by (rule pow2_less_imp_less)
  have "(2::rat) powi e < 2 powi (ilog2 x + 1)" using b assms by linarith
  then have "e < ilog2 x + 1" by (rule pow2_less_imp_less)
  then show ?thesis using a by simp
qed

lemma ilog2_mono:
  assumes "0 < x" "x \<le> y"
  shows "ilog2 x \<le> ilog2 y"
proof (rule ccontr)
  assume "\<not> ilog2 x \<le> ilog2 y"
  then have "ilog2 y + 1 \<le> ilog2 x" by simp
  then have "(2::rat) powi (ilog2 y + 1) \<le> 2 powi (ilog2 x)"
    by (intro power_int_increasing) auto
  also have "\<dots> \<le> x" using ilog2_bounds[OF assms(1)] by simp
  also have "\<dots> \<le> y" by fact
  finally show False using ilog2_bounds[of y] assms by simp
qed

lemma round_half_even_cases:
  "round_half_even x = \<lfloor>x\<rfloor> \<or> round_half_even x = \<lfloor>x\<rfloor> + 1"
  by (simp add: round_half_even_def Let_def)

lemma round_half_even_of_int [simp]: "round_half_even (of_int n) = n"
  by (simp add: round_half_even_def)

lemma round_half_even_mono:
  assumes "x \<le> y"
  shows "round_half_even x \<le> round_half_even y"
proof (cases "\<lfloor>x\<rfloor> = \<lfloor>y\<rfloor>")
  case True
  then show ?thesis using assms by (auto simp: round_half_even_def Let_def)
next
  case False
  then have "\<lfloor>x\<rfloor> + 1 \<le> \<lfloor>y\<rfloor>" using floor_mono[OF assms] by simp
  moreover have "round_half_even x \<le> \<lfloor>x\<rfloor> + 1"
    using round_half_even_cases[of x] by auto
  moreover have "\<lfloor>y\<rfloor> \<le> round_half_even y"
    using round_half_even_cases[of y] by auto
  ultimately show ?thesis by linarith
qed

lemma round_half_even_minus: "round_half_even (- x) = - round_half_even x"
proof (cases "x = of_int \<lfloor>x\<rfloor>")
  case True
  then have "- x = of_int (- \<lfloor>x\<rfloor>)" by simp
  then have "round_half_even (- x) = - \<lfloor>x\<rfloor>" by (simp only: round_half_even_of_int)
  moreover have "round_half_even x = \<lfloor>x\<rfloor>"
    using True round_half_even_of_int[of "\<lfloor>x\<rfloor>"] by simp
  ultimately show ?thesis by simp
next
  case False
  then have fl: "\<lfloor>- x\<rfloor> = - \<lfloor>x\<rfloor> - 1"
    by (simp add: floor_minus ceiling_altdef)
  define d where "d = x - of_int \<lfloor>x\<rfloor>"
  have d': "- x - of_int (- \<lfloor>x\<rfloor> - 1) = 1 - d" by (simp add: d_def)
  have ev: "even (- \<lfloor>x\<rfloor> - 1) \<longleftrightarrow> odd \<lfloor>x\<rfloor>" by simp
  have "round_half_even (- x) =
      (if 1 - d < 1 / 2 then - \<lfloor>x\<rfloor> - 1 else if 1 / 2 < 1 - d then - \<lfloor>x\<rfloor>
       else if odd \<lfloor>x\<rfloor> then - \<lfloor>x\<rfloor> - 1 else - \<lfloor>x\<rfloor>)"
    unfolding round_half_even_def Let_def fl d' ev by simp
  moreover have "round_half_even x =
      (if d < 1 / 2 then \<lfloor>x\<rfloor> else if 1 / 2 < d then \<lfloor>x\<rfloor> + 1
       else if even \<lfloor>x\<rfloor> then \<lfloor>x\<rfloor> else \<lfloor>x\<rfloor> + 1)"
    unfolding round_half_even_def Let_def d_def by simp
  ultimately show ?thesis by auto
qed

lemma quantum_pos: "0 < quantum x"
  by (simp add: quantum_def)

lemma quantum_minus [simp]: "quantum (- x) = quantum x"
  by (simp add: quantum_def)

lemma round_rat_minus: "round_rat (- x) = - round_rat x"
  by (simp add: round_rat_def round_half_even_minus)

lemma round_rat_nonneg:
  assumes "0 \<le> x"
  shows "0 \<le> round_rat x"
proof -
  have "0 \<le> x / quantum x" using assms quantum_pos[of x] by simp
  then have "round_half_even 0 \<le> round_half_even (x / quantum x)"
    by (rule round_half_even_mono)
  then have "0 \<le> round_half_even (x / quantum x)"
    using round_half_even_of_int[of 0] by simp
  then show ?thesis using quantum_pos[of x] by (simp add: round_rat_def)
qed

lemma round_rat_mono_pos:
  assumes "0 < x" "x \<le> y"
  shows "round_rat x \<le> round_rat y"
proof -
  have ypos: "0 < y" using assms by simp
  define ex where "ex = max (ilog2 x) (- 1022)"
  define ey where "ey = max (ilog2 y) (- 1022)"
  have qx: "quantum x = 2 powi (ex - 52)" using assms by (simp add: quantum_def ex_def)
  have qy: "quantum y = 2 powi (ey - 52)" using ypos by (simp add: quantum_def ey_def)
  have rx: "round_rat x = of_int (round_half_even (x / quantum x)) * quantum x"
    using assms by (simp add: round_rat_def)
  have ry: "round_rat y = of_int (round_half_even (y / quantum y)) * quantum y"
    using ypos by (simp add: round_rat_def)
  have le: "ex \<le> ey" using ilog2_mono[OF assms] by (simp add: ex_def ey_def)
  show ?thesis
  proof (cases "ex = ey")
    case True
    then have qq: "quantum x = quantum y" using qx qy by simp
    have "x / quantum y \<le> y / quantum y"
      using assms quantum_pos[of y] by (simp add: divide_right_mono)
    then have "round_half_even (x / quantum y) \<le> round_half_even (y / quantum y)"
      by (rule round_half_even_mono)
    then have "(of_int (round_half_even (x / quantum y)) :: rat)
                 \<le> of_int (round_half_even (y / quantum y))"
      by (simp only: of_int_le_iff)
    then show ?thesis unfolding rx ry qq
      using quantum_pos[of y] by (simp add: mult_right_mono)
  next
    case False
    then have lt: "ex + 1 \<le> ey" using le by simp
    then have eyl: "ey = ilog2 y" by (auto simp: ey_def ex_def)
    have "x < 2 powi (ilog2 x + 1)" using ilog2_bounds[OF assms(1)] by simp
    also have "\<dots> \<le> 2 powi (ex + 1)"
      by (intro power_int_increasing) (auto simp: ex_def)
    finally have xup: "x \<le> 2 powi (ex + 1)" by simp
    have "x / quantum x \<le> 2 powi (ex + 1) / quantum x"
      using xup quantum_pos[of x] by (simp add: divide_right_mono)
    also have "2 powi (ex + 1) / quantum x = (2::rat) powi 53"
      unfolding qx by (simp add: power_int_diff[symmetric])
    also have "(2::rat) powi 53 = of_int (2 ^ 53)" by simp
    finally have "x / quantum x \<le> of_int (2 ^ 53)" .
    then have "round_half_even (x / quantum x) \<le> round_half_even (of_int (2 ^ 53))"
      by (rule round_half_even_mono)
    then have "round_half_even (x / quantum x) \<le> 2 ^ 53"
      by (simp only: round_half_even_of_int)
    then have "(of_int (round_half_even (x / quantum x)) :: rat) \<le> of_int (2 ^ 53)"
      by (simp only: of_int_le_iff)
    then have "round_rat x \<le> of_int (2 ^ 53) * quantum x"
      unfolding rx using quantum_pos[of x] by (intro mult_right_mono) auto
    also have "of_int (2 ^ 53) = (2::rat) powi 53" by simp
    also have "2 powi 53 * quantum x = 2 powi (ex + 1)"
      unfolding qx pow2_add by (rule arg_cong[of _ _ "\<lambda>e. 2 powi e"]) simp
    also have "\<dots> \<le> 2 powi ey" using lt by (intro power_int_increasing) auto
    finally have A: "round_rat x \<le> 2 powi ey" .
    have ylow: "2 powi ey \<le> y" using ilog2_bounds[OF ypos] eyl by simp
    have "2 powi ey / quantum y \<le> y / quantum y"
      using ylow quantum_pos[of y] by (simp add: divide_right_mono)
    moreover have "2 powi ey / quantum y = (2::rat) powi 52"
      unfolding qy by (simp add: power_int_diff[symmetric])
    moreover have "(2::rat) powi 52 = of_int (2 ^ 52)" by simp
    ultimately have "of_int (2 ^ 52) \<le> y / quantum y" by (simp only:)
    then have "round_half_even (of_int (2 ^ 52)) \<le> round_half_even (y / quantum y)"
      by (rule round_half_even_mono)
    then have "2 ^ 52 \<le> round_half_even (y / quantum y)"
      by (simp only: round_half_even_of_int)
    then have "(of_int (2 ^ 52) :: rat) \<le> of_int (round_half_even (y / quantum y))"
      by (simp only: of_int_le_iff)
    then have "of_int (2 ^ 52) * quantum y \<le> round_rat y"
      unfolding ry using quantum_pos[of y] by (intro mult_right_mono) auto
    moreover have "of_int (2 ^ 52) * quantum y = 2 powi 52 * quantum y" by simp
    moreover have "2 powi 52 * quantum y = 2 powi ey"
      unfolding qy pow2_add by (rule arg_cong[of _ _ "\<lambda>e. 2 powi e"]) simp
    ultimately have B: "2 powi ey \<le> round_rat y" by simp
    show ?thesis using A B by simp
  qed
qed

lemma round_rat_mono:
  assumes "x \<le> y"
  shows "round_rat x \<le> round_rat y"
proof -
  consider "0 < x" | "x \<le> 0" "0 \<le> y" | "y < 0" by linarith
  then show ?thesis
  proof cases
    case 1
    then show ?thesis using assms by (rule round_rat_mono_pos)
  next
    case 2
    have "0 \<le> round_rat (- x)" using 2 by (intro round_rat_nonneg) simp
    then have "round_rat x \<le> 0" by (simp add: round_rat_minus)
    moreover have "0 \<le> round_rat y" using 2 by (intro round_rat_nonneg)
    ultimately show ?thesis by simp
  next
    case 3
    then have "0 < - y" "- y \<le> - x" using assms by auto
    then have "round_rat (- y) \<le> round_rat (- x)" by (rule round_rat_mono_pos)
    then show ?thesis by (simp add: round_rat_minus)
  qed
qed

lemma quantum_eq:
  assumes "2 powi e \<le> \<bar>x\<bar>" "\<bar>x\<bar> < 2 powi (e + 1)" "- 1022 \<le> e"
  shows "quantum x = 2 powi (e - 52)"
  using ilog2_unique[OF assms(1,2)] assms(3) by (simp add: quantum_def)

lemma round_rat_eq:
  assumes "2 powi e \<le> \<bar>x\<bar>" "\<bar>x\<bar> < 2 powi (e + 1)" "- 1022 \<le> e"
  shows "round_rat x = of_int (round_half_even (x / 2 powi (e - 52))) * 2 powi (e - 52)"
proof -
  have "x \<noteq> 0"
  proof
    assume "x = 0"
    then have "(2::rat) powi e \<le> 0" using assms(1) by simp
    moreover have "(0::rat) < 2 powi e" by simp
    ultimately show False by linarith
  qed
  then show ?thesis by (simp add: round_rat_def quantum_eq[OF assms])
qed

lemma round_rat_representable:
  assumes x: "x = of_int m * 2 powi k" and m: "\<bar>m\<bar> < 2 ^ 53" and k: "- 1074 \<le> k"
  shows "round_rat x = x"
proof (cases "x = 0")
  case True
  then show ?thesis by (simp add: round_rat_def)
next
  case False
  then have pos: "0 < \<bar>x\<bar>" by simp
  define e where "e = max (ilog2 \<bar>x\<bar>) (- 1022)"
  have q: "quantum x = 2 powi (e - 52)" by (simp add: quantum_def e_def)
  have "\<bar>x\<bar> = of_int \<bar>m\<bar> * 2 powi k" by (simp add: x abs_mult)
  also have "\<dots> < of_int (2 ^ 53) * 2 powi k"
    using m by (intro mult_strict_right_mono) (simp_all only: of_int_less_iff, simp)
  also have "(of_int (2 ^ 53) :: rat) = 2 powi 53" by simp
  also have "2 powi 53 * 2 powi k = (2::rat) powi (53 + k)" by (rule pow2_add)
  finally have "(2::rat) powi (ilog2 \<bar>x\<bar>) < 2 powi (53 + k)"
    using ilog2_bounds[OF pos] by linarith
  then have "ilog2 \<bar>x\<bar> < 53 + k" by (rule pow2_less_imp_less)
  then have ek: "0 \<le> k - e + 52" using k by (simp add: e_def)
  have "x / quantum x = x / 2 powi (e - 52)" by (simp only: q)
  also have "\<dots> = of_int m * (2 powi k / 2 powi (e - 52))" by (simp add: x)
  also have "2 powi k / 2 powi (e - 52) = (2::rat) powi (k - e + 52)"
    by (simp add: power_int_diff[symmetric] algebra_simps)
  also have "\<dots> = of_int (2 ^ nat (k - e + 52))" using ek by (rule pow2_nonneg_int)
  finally have "x / quantum x = of_int (m * 2 ^ nat (k - e + 52))" by simp
  then have "round_half_even (x / quantum x) = m * 2 ^ nat (k - e + 52)"
    by (simp only: round_half_even_of_int)
  then have "of_int (round_half_even (x / quantum x)) = x / quantum x"
    using \<open>x / quantum x = of_int (m * 2 ^ nat (k - e + 52))\<close> by simp
  then show ?thesis using False quantum_pos[of x] by (simp add: round_rat_def)
qed

lemma round_rat_pow2:
  assumes "- 1074 \<le> k"
  shows "round_rat (2 powi k) = 2 powi k"
  using round_rat_representable[of "2 powi k" 1 k] assms by simp

lemma round_rat_abs_le:
  assumes "- 1074 \<le> k" "\<bar>x\<bar> \<le> 2 powi k"
  shows "\<bar>round_rat x\<bar> \<le> 2 powi k"
proof -
  have "x \<le> 2 powi k" "- (2 powi k) \<le> x" using assms(2) by auto
  then have "round_rat x \<le> round_rat (2 powi k)" "round_rat (- (2 powi k)) \<le> round_rat x"
    by (auto intro: round_rat_mono)
  then show ?thesis by (simp add: round_rat_minus round_rat_pow2[OF assms(1)] abs_le_iff)
qed

lemma round_double_finite:
  assumes "\<bar>x\<bar> \<le> 2 powi k" "- 1074 \<le> k" "k < 1024"
  shows "round_double x = Fin (round_rat x)"
proof -
  have "\<bar>round_rat x\<bar> \<le> 2 powi k" using assms by (intro round_rat_abs_le)
  also have "(2::rat) powi k < 2 powi 1024"
    using assms(3) by (intro power_int_strict_increasing) auto
  finally show ?thesis by (simp add: round_double_def Let_def)
qed

lemma round_double_eval:
  assumes "2 powi e \<le> \<bar>x\<bar>" "\<bar>x\<bar> < 2 powi (e + 1)" "- 1022 \<le> e" "e < 1023"
  shows "round_double x = Fin (of_int (round_half_even (x / 2 powi (e - 52))) * 2 powi (e - 52))"
proof -
  have "\<bar>x\<bar> \<le> 2 powi (e + 1)" using assms(2) by simp
  then have "round_double x = Fin (round_rat x)"
    using assms(3,4) by (intro round_double_finite[where k = "e + 1"]) auto
  then show ?thesis using round_rat_eq[OF assms(1,2,3)] by simp
qed

lemma round_double_representable:
  assumes "x = of_int m * 2 powi k" "\<bar>m\<bar> < 2 ^ 53" "- 1074 \<le> k" "k < 970"
  shows "round_double x = Fin x"
proof -
  have "\<bar>x\<bar> = of_int \<bar>m\<bar> * 2 powi k" by (simp add: assms(1) abs_mult)
  also have "\<dots> \<le> of_int (2 ^ 53) * 2 powi k"
    using assms(2) by (intro mult_right_mono) (simp_all only: of_int_le_iff, simp_all)
  also have "(of_int (2 ^ 53) :: rat) = 2 powi 53" by simp
  also have "2 powi 53 * 2 powi k = (2::rat) powi (53 + k)" by (rule pow2_add)
  finally have "\<bar>x\<bar> \<le> 2 powi (53 + k)" .
  then have "round_double x = Fin (round_rat x)"
    using assms(3,4) by (intro round_double_finite[where k = "53 + k"]) auto
  then show ?thesis using round_rat_representable[OF assms(1,2,3)] by simp
qed

lemma round_double_of_int:
  assumes "\<bar>n\<bar> < 2 ^ 53"
  shows "round_double (of_int n) = Fin (of_int n)"
  using round_double_representable[of "of_int n" n 0] assms by simp

lemma round_half_even_near:
  assumes "\<bar>y - of_int m\<bar> < 1 / 2"
  shows "round_half_even y = m"
proof -
  have lo: "of_int m - 1 / 2 < y" and hi: "y < of_int m + 1 / 2"
    using assms by linarith+
  show ?thesis
  proof (cases "of_int m \<le> y")
    case True
    then have f: "\<lfloor>y\<rfloor> = m" using hi by (intro floor_unique) auto
    have "y - of_int m < 1 / 2" using hi by linarith
    then show ?thesis by (simp add: round_half_even_def Let_def f)
  next
    case False
    then have f: "\<lfloor>y\<rfloor> = m - 1" using lo by (intro floor_unique) auto
    have "1 / 2 < y - of_int (m - 1)" using lo by simp
    then show ?thesis by (simp add: round_half_even_def Let_def f)
  qed
qed

lemma round_half_even_tie:
  assumes "\<bar>y - of_int m\<bar> = 1 / 2" "even m"
  shows "round_half_even y = m"
proof -
  consider "y = of_int m + 1 / 2" | "y = of_int m - 1 / 2"
    using assms(1) by (auto simp: abs_if split: if_splits)
  then show ?thesis
  proof cases
    case 1
    then have f: "\<lfloor>y\<rfloor> = m" by (simp add: floor_eq_iff)
    then show ?thesis using 1 assms(2) by (simp add: round_half_even_def Let_def)
  next
    case 2
    then have f: "\<lfloor>y\<rfloor> = m - 1" by (simp add: floor_eq_iff)
    then show ?thesis using 2 assms(2) by (simp add: round_half_even_def Let_def)
  qed
qed

lemma scaled_distance:
  fixes x :: rat
  shows "\<bar>x / 2 powi (e - 52) - of_int m\<bar> = \<bar>x - of_int m * 2 powi (e - 52)\<bar> / 2 powi (e - 52)"
proof -
  define q :: rat where "q = 2 powi (e - 52)"
  have q: "0 < q" by (simp add: q_def)
  have "x / q - of_int m = (x - of_int m * q) / q"
    using q by (simp add: diff_divide_distrib)
  then have "\<bar>x / q - of_int m\<bar> = \<bar>(x - of_int m * q) / q\<bar>" by (simp only:)
  also have "\<dots> = \<bar>x - of_int m * q\<bar> / \<bar>q\<bar>" by (rule abs_divide)
  also have "\<bar>q\<bar> = q" using q by simp
  finally show ?thesis by (simp only: q_def)
qed

lemma half_quantum: "(2::rat) powi (e - 53) / 2 powi (e - 52) = 1 / 2"
proof -
  have "(2::rat) powi (e - 53) * 2 powi 1 = 2 powi (e - 52)"
    unfolding pow2_add by (rule arg_cong[of _ _ "\<lambda>e. 2 powi e"]) simp
  then have "(2::rat) powi (e - 52) = 2 * 2 powi (e - 53)" by simp
  then show ?thesis by simp
qed

lemma round_double_near:
  assumes "2 powi e \<le> \<bar>x\<bar>" "\<bar>x\<bar> < 2 powi (e + 1)" "- 1022 \<le> e" "e < 1023"
    and r: "r = of_int m * 2 powi (e - 52)"
    and near: "\<bar>x - r\<bar> < 2 powi (e - 53)"
  shows "round_double x = Fin r"
proof -
  have q: "(0::rat) < 2 powi (e - 52)" by simp
  have "\<bar>x - r\<bar> / 2 powi (e - 52) < 2 powi (e - 53) / 2 powi (e - 52)"
    using near q by (rule divide_strict_right_mono)
  then have "\<bar>x / 2 powi (e - 52) - of_int m\<bar> < 1 / 2"
    unfolding scaled_distance r half_quantum .
  then have "round_half_even (x / 2 powi (e - 52)) = m" by (rule round_half_even_near)
  then show ?thesis using round_double_eval[OF assms(1-4)] r by simp
qed

lemma round_double_tie:
  assumes "2 powi e \<le> \<bar>x\<bar>" "\<bar>x\<bar> < 2 powi (e + 1)" "- 1022 \<le> e" "e < 1023"
    and r: "r = of_int m * 2 powi (e - 52)"
    and tie: "\<bar>x - r\<bar> = 2 powi (e - 53)" and ev: "even m"
  shows "round_double x = Fin r"
proof -
  have "\<bar>x - r\<bar> / 2 powi (e - 52) = 2 powi (e - 53) / 2 powi (e - 52)"
    using tie by simp
  then have "\<bar>x / 2 powi (e - 52) - of_int m\<bar> = 1 / 2"
    unfolding scaled_distance r half_quantum .
  then have "round_half_even (x / 2 powi (e - 52)) = m" using ev by (rule round_half_even_tie)
  then show ?thesis using round_double_eval[OF assms(1-4)] r by simp
qed

subsection \<open>Evaluating the model on numerals\<close>

lemma round_rat_zero [simp]: "round_rat 0 = 0"
  by (simp add: round_rat_def)

lemma round_double_zero [simp]: "round_double 0 = Fin 0"
  by (simp add: round_double_def)

lemma round_double_int:
  assumes "\<bar>n\<bar> < 9007199254740992"
  shows "round_double (of_int n) = Fin (of_int n)"
  using round_double_representable[of "of_int n" n 0] assms by simp

lemma round_double_numeral:
  assumes "(numeral n :: int) < 9007199254740992"
  shows "round_double (numeral n) = Fin (numeral n)"
  using round_double_int[of "numeral n"] assms by simp

lemma round_double_one [simp]: "round_double 1 = Fin 1"
  using round_double_int[of 1] by simp

lemma round_double_minus: "round_double (- x) = fneg (round_double x)"
proof -
  consider "x = 0" | "0 < x" | "x < 0" by linarith
  then show ?thesis
  proof cases
    case 1
    then show ?thesis by simp
  next
    case 2
    then show ?thesis
      by (simp add: round_double_def round_rat_minus Let_def del: power_int_numeral)
  next
    case 3
    then show ?thesis
      by (simp add: round_double_def round_rat_minus Let_def del: power_int_numeral)
  qed
qed

lemmas eval_simps = round_double_numeral round_double_minus float_of_int_def int_truediv_def
  lit_def fsub_def py_max_def py_min_def

subsection \<open>Finite operands give finite results\<close>

lemma float_of_int_fin:
  assumes "\<bar>n\<bar> \<le> 2 ^ j" "j < 1024"
  shows "\<exists>r. float_of_int n = Some (Fin r) \<and> \<bar>r\<bar> \<le> 2 powi (int j)"
proof -
  have "\<bar>of_int n :: rat\<bar> = of_int \<bar>n\<bar>" by simp
  also have "\<dots> \<le> of_int (2 ^ j)" using assms(1) by (simp only: of_int_le_iff)
  also have "\<dots> = 2 powi (int j)" by simp
  finally have b: "\<bar>of_int n :: rat\<bar> \<le> 2 powi (int j)" .
  have "round_double (of_int n) = Fin (round_rat (of_int n))"
    using b assms(2) by (intro round_double_finite[where k = "int j"]) auto
  moreover have "\<bar>round_rat (of_int n)\<bar> \<le> 2 powi (int j)"
    using b by (intro round_rat_abs_le) auto
  ultimately show ?thesis by (simp add: float_of_int_def)
qed

lemma int_truediv_fin:
  assumes "b \<noteq> 0" "\<bar>a\<bar> \<le> 2 ^ j * \<bar>b\<bar>" "j < 1024"
  shows "\<exists>r. int_truediv a b = Some (Fin r) \<and> \<bar>r\<bar> \<le> 2 powi (int j)"
proof -
  have bpos: "0 < \<bar>of_int b :: rat\<bar>" using assms(1) by simp
  have "\<bar>of_int a :: rat\<bar> = of_int \<bar>a\<bar>" by simp
  also have "\<dots> \<le> of_int (2 ^ j * \<bar>b\<bar>)" using assms(2) by (simp only: of_int_le_iff)
  also have "\<dots> = 2 powi (int j) * \<bar>of_int b\<bar>" by simp
  finally have "\<bar>of_int a :: rat\<bar> / \<bar>of_int b\<bar> \<le> 2 powi (int j)"
    using bpos by (simp add: pos_divide_le_eq)
  then have b: "\<bar>of_int a / of_int b :: rat\<bar> \<le> 2 powi (int j)"
    by (simp only: abs_divide)
  have "round_double (of_int a / of_int b) = Fin (round_rat (of_int a / of_int b))"
    using b assms(3) by (intro round_double_finite[where k = "int j"]) auto
  moreover have "\<bar>round_rat (of_int a / of_int b)\<bar> \<le> 2 powi (int j)"
    using b by (intro round_rat_abs_le) auto
  ultimately show ?thesis using assms(1) by (simp add: int_truediv_def)
qed

lemma sum_list_abs_le:
  assumes "\<forall>s\<in>set xs. \<bar>s\<bar> \<le> (M::int)"
  shows "\<bar>sum_list xs\<bar> \<le> M * int (length xs)"
  using assms
proof (induction xs)
  case Nil
  then show ?case by simp
next
  case (Cons x xs)
  then have "\<bar>x\<bar> \<le> M" "\<bar>sum_list xs\<bar> \<le> M * int (length xs)" by auto
  then have "\<bar>x + sum_list xs\<bar> \<le> M + M * int (length xs)" by linarith
  then show ?case by (simp add: algebra_simps)
qed

lemma fmul_fin:
  assumes "\<bar>a\<bar> \<le> 2 powi j" "\<bar>b\<bar> \<le> 2 powi k" "- 1074 \<le> j + k" "j + k < 1024"
  shows "\<exists>r. fmul (Fin a) (Fin b) = Fin r \<and> \<bar>r\<bar> \<le> 2 powi (j + k)"
proof -
  have "\<bar>a * b\<bar> = \<bar>a\<bar> * \<bar>b\<bar>" by (rule abs_mult)
  also have "\<dots> \<le> 2 powi j * 2 powi k" using assms(1,2) by (intro mult_mono) auto
  also have "\<dots> = 2 powi (j + k)" by (rule pow2_add)
  finally have b: "\<bar>a * b\<bar> \<le> 2 powi (j + k)" .
  have "round_double (a * b) = Fin (round_rat (a * b))"
    using b assms(3,4) by (intro round_double_finite[where k = "j + k"]) auto
  moreover have "\<bar>round_rat (a * b)\<bar> \<le> 2 powi (j + k)"
    using b assms(3) by (intro round_rat_abs_le) auto
  ultimately show ?thesis by simp
qed

lemma fadd_fin:
  assumes "\<bar>a\<bar> \<le> 2 powi j" "\<bar>b\<bar> \<le> 2 powi j" "- 1074 \<le> j + 1" "j + 1 < 1024"
  shows "\<exists>r. fadd (Fin a) (Fin b) = Fin r \<and> \<bar>r\<bar> \<le> 2 powi (j + 1)"
proof -
  have "\<bar>a + b\<bar> \<le> \<bar>a\<bar> + \<bar>b\<bar>" by (rule abs_triangle_ineq)
  also have "\<dots> \<le> 2 powi j + 2 powi j" using assms(1,2) by (intro add_mono)
  also have "\<dots> = 2 powi j * 2 powi 1" by simp
  also have "\<dots> = 2 powi (j + 1)" by (rule pow2_add)
  finally have b: "\<bar>a + b\<bar> \<le> 2 powi (j + 1)" .
  have "round_double (a + b) = Fin (round_rat (a + b))"
    using b assms(3,4) by (intro round_double_finite[where k = "j + 1"]) auto
  moreover have "\<bar>round_rat (a + b)\<bar> \<le> 2 powi (j + 1)"
    using b assms(3) by (intro round_rat_abs_le) auto
  ultimately show ?thesis by simp
qed

lemma fsub_fin:
  assumes "\<bar>a\<bar> \<le> 2 powi j" "\<bar>b\<bar> \<le> 2 powi j" "- 1074 \<le> j + 1" "j + 1 < 1024"
  shows "\<exists>r. fsub (Fin a) (Fin b) = Fin r \<and> \<bar>r\<bar> \<le> 2 powi (j + 1)"
  using fadd_fin[of a j "- b"] assms by (simp add: fsub_def)

lemma fdiv_fin:
  assumes "\<bar>a\<bar> \<le> 2 powi j" "1 \<le> \<bar>b\<bar>" "- 1074 \<le> j" "j < 1024"
  shows "\<exists>r. fdiv (Fin a) (Fin b) = Some (Fin r) \<and> \<bar>r\<bar> \<le> 2 powi j"
proof -
  have "\<bar>a / b\<bar> = \<bar>a\<bar> / \<bar>b\<bar>" by (rule abs_divide)
  also have "\<dots> \<le> \<bar>a\<bar> / 1" using assms(2) by (intro divide_left_mono) auto
  also have "\<dots> \<le> 2 powi j" using assms(1) by simp
  finally have b: "\<bar>a / b\<bar> \<le> 2 powi j" .
  have "round_double (a / b) = Fin (round_rat (a / b))"
    using b assms(3,4) by (intro round_double_finite[where k = j]) auto
  moreover have "\<bar>round_rat (a / b)\<bar> \<le> 2 powi j"
    using b assms(3) by (intro round_rat_abs_le) auto
  moreover have "b \<noteq> 0" using assms(2) by auto
  ultimately show ?thesis by simp
qed

lemma pow2_le_mono: "j \<le> k \<Longrightarrow> (x::rat) \<le> 2 powi j \<Longrightarrow> x \<le> 2 powi k"
proof -
  assume "j \<le> k" and x: "x \<le> 2 powi j"
  then have "(2::rat) powi j \<le> 2 powi k" by (intro power_int_increasing) auto
  then show ?thesis using x by linarith
qed

lemma lit_100: "lit 100 = Fin 100"
  by (simp add: lit_def round_double_numeral)

lemma lit_half: "lit (1 / 2) = Fin (1 / 2)"
  unfolding lit_def
  by (rule round_double_near[where e = "- 1" and m = 4503599627370496]) simp_all

lemma lit_7_10: "lit (7 / 10) = Fin (3152519739159347 / 4503599627370496)"
  unfolding lit_def
  by (rule round_double_near[where e = "- 1" and m = 6305039478318694]) simp_all

lemma round_double_67_2: "round_double (67 / 2) = Fin (67 / 2)"
  by (rule round_double_near[where e = 5 and m = 4714705859903488]) simp_all

lemma trunc_rat_zero [simp]: "trunc_rat 0 = 0"
  by (simp add: trunc_rat_def)

subsection \<open>The error of one rounding\<close>








section \<open>Diner counter\<close>

lemma get_or_create_existing:
  "SERVICE_DAYS w (sid, day) = Some sd \<Longrightarrow> get_or_create_service_day w sid day = (w, Some sd)"
  by (simp add: get_or_create_service_day_def)

lemma get_or_create_stored:
  "get_or_create_service_day w sid day = (w', Some sd) \<Longrightarrow> SERVICE_DAYS w' (sid, day) = Some sd"
  by (auto simp: get_or_create_service_day_def Let_def split: option.splits outcome.splits)

lemma get_or_create_client:
  "get_or_create_service_day w sid day = (w', found) \<Longrightarrow> REDIS_CLIENT w' = REDIS_CLIENT w"
  by (auto simp: get_or_create_service_day_def Let_def split: option.splits outcome.splits)

lemma hydrate_no_client [simp]: "hydrate_service_day_from_store None sd = Returns sd"
  by (simp add: hydrate_service_day_from_store_def)

text \<open>
  C9, as stated: after \<open>incrementDiners(delta)\<close> the counter of diners served so far is at least
  what it was, for every session and every integer \<open>delta\<close>.  This fails: the source adds the
  delta and clamps the sum at zero, so a negative delta takes the counter down.  On a fresh
  session of the default site the counter starts at 148, and a delta of \<open>-5\<close> leaves 143.
\<close>

theorem increment_diner_not_monotonic:
  "diners_so_far
     (the (SERVICE_DAYS
        (fst (api_increment_diner \<lparr>SERVICE_DAYS = Map.empty, REDIS_CLIENT = None\<rparr>
                ''flavoria'' 0 (Some (- 5))))
        (''flavoria'', 0)))
   < diners_so_far
       (the (snd (get_or_create_service_day \<lparr>SERVICE_DAYS = Map.empty, REDIS_CLIENT = None\<rparr>
                    ''flavoria'' 0)))"
  by (simp add: api_increment_diner_def get_or_create_service_day_def put_service_day_def
      new_service_day_def DEFAULT_SITE_ID_def Let_def)

text \<open>
  C9, amended: \<open>incrementDiners(delta)\<close> sets the counter to \<open>max(counter + delta, 0)\<close> and
  answers with the new total.  So the counter never falls for a delta that is not negative,
  and it is never negative afterwards; a negative delta lowers it.  The session is the one that
  the request finds, or the fresh one it creates; a body without \<open>delta\<close> counts one diner.
\<close>

theorem increment_diner_clamped:
  assumes "get_or_create_service_day w sid day = (w1, Some sd)"
    and "api_increment_diner w sid day delta_field = (w', r)"
    and "delta = (case delta_field of Some d \<Rightarrow> d | None \<Rightarrow> 1)"
  shows "\<exists>sd'. SERVICE_DAYS w' (sid, day) = Some sd'
           \<and> diners_so_far sd' = max (diners_so_far sd + delta) 0
           \<and> r = Ok_diners (diners_so_far sd')
           \<and> 0 \<le> diners_so_far sd'
           \<and> (0 \<le> delta \<longrightarrow> diners_so_far sd \<le> diners_so_far sd')
           \<and> ServiceDay.pan_fill_percent sd' = ServiceDay.pan_fill_percent sd
           \<and> last_decision sd' = last_decision sd"
  using assms
  by (auto simp: api_increment_diner_def put_service_day_def Let_def split: prod.splits)

theorem increment_diner_clamped_witness:
  "\<exists>sd'. SERVICE_DAYS
            (fst (api_increment_diner \<lparr>SERVICE_DAYS = Map.empty, REDIS_CLIENT = None\<rparr>
                    ''flavoria'' 0 (Some 3)))
            (''flavoria'', 0) = Some sd'
         \<and> diners_so_far sd' = 151"
proof -
  let ?w = "\<lparr>SERVICE_DAYS = Map.empty, REDIS_CLIENT = None\<rparr>"
  obtain w1 sd where g: "get_or_create_service_day ?w ''flavoria'' 0 = (w1, Some sd)"
    by (simp add: get_or_create_service_day_def)
  obtain w' r where a: "api_increment_diner ?w ''flavoria'' 0 (Some 3) = (w', r)"
    by (cases "api_increment_diner ?w ''flavoria'' 0 (Some 3)")
  have d: "diners_so_far sd = 148"
    using g
    by (auto simp: get_or_create_service_day_def new_service_day_def DEFAULT_SITE_ID_def Let_def)
  have "(3::int) = (case Some 3 of Some d \<Rightarrow> d | None \<Rightarrow> 1)" by simp
  from increment_diner_clamped [OF g a this] d a show ?thesis by auto
qed

section \<open>Suggested grams\<close>









section \<open>Satisfaction percent\<close>

lemma satisfaction_lowest: "compute_satisfaction_percent [1, 1, 1] = Some (Some 33)"
  by (simp add: compute_satisfaction_percent_def eval_simps round_double_67_2 trunc_rat_def)

lemma satisfaction_highest: "compute_satisfaction_percent [3, 3, 3] = Some (Some 100)"
  by (simp add: compute_satisfaction_percent_def eval_simps round_double_67_2 trunc_rat_def)

text \<open>
  C7, as stated: for a list that is not empty \<open>compute_satisfaction_percent\<close> returns
  \<open>33 + (avg - 1) * 33.5\<close> rounded to an integer.  This fails: the source converts with
  \<open>int(...)\<close>, which drops the fraction.  The scores 1 and 2 average 1.5 and map to 49.75: the
  code returns 49, the rounded value is 50.  (All these numbers are doubles.)
\<close>

theorem compute_satisfaction_percent_rounding_counterexample:
  "compute_satisfaction_percent [1, 2] = Some (Some 49) \<and> spec_satisfaction_percent [1, 2] = Some 50"
proof -
  have r1: "round_double (3 / 2) = Fin (3 / 2)"
    by (rule round_double_near[where e = 0 and m = 6755399441055744]) simp_all
  have r3: "round_double (1 / 2) = Fin (1 / 2)"
    by (rule round_double_near[where e = "- 1" and m = 4503599627370496]) simp_all
  have r4: "round_double (67 / 4) = Fin (67 / 4)"
    by (rule round_double_near[where e = 4 and m = 4714705859903488]) simp_all
  have r5: "round_double (199 / 4) = Fin (199 / 4)"
    by (rule round_double_near[where e = 5 and m = 7001690045677568]) simp_all
  have rt1: "trunc_rat (199 / 4) = 49"
    by (simp add: trunc_rat_def floor_eq_iff ceiling_eq_iff)
  have code: "compute_satisfaction_percent [1, 2] = Some (Some 49)"
    by (simp add: compute_satisfaction_percent_def eval_simps round_double_67_2 r1 r3 r4 r5 rt1)
  have "round (199 / 4 :: rat) = 50"
    by (simp add: round_def floor_eq_iff)
  then have spec: "spec_satisfaction_percent [1, 2] = Some 50"
    by (simp add: spec_satisfaction_percent_def Let_def)
  show ?thesis using code spec by simp
qed

text \<open>
  C7, amended: \<open>compute_satisfaction_percent\<close> returns null for an empty list, and otherwise
  \<open>33 + (avg - 1) * 33.5\<close>, computed in double precision and truncated toward zero (not
  rounded), where \<open>avg\<close> is the mean of the scores; it maps \<open>[1,1,1]\<close> to 33 and \<open>[3,3,3]\<close> to
  100.  The function returns for all scores of magnitude up to \<open>2^200\<close>.
\<close>

theorem compute_satisfaction_percent_truncates:
  assumes "\<forall>s\<in>set scores. \<bar>s\<bar> \<le> 2 ^ 200"
  shows "compute_satisfaction_percent [] = Some None
         \<and> (scores \<noteq> [] \<longrightarrow>
               (\<exists>x. satisfaction_value scores = Some (Fin x)
                    \<and> compute_satisfaction_percent scores = Some (Some (trunc_rat x))))
         \<and> compute_satisfaction_percent [1, 1, 1] = Some (Some 33)
         \<and> compute_satisfaction_percent [3, 3, 3] = Some (Some 100)"
proof -
  have empty: "compute_satisfaction_percent [] = Some None"
    by (simp add: compute_satisfaction_percent_def)
  have main: "\<exists>x. satisfaction_value scores = Some (Fin x)
                 \<and> compute_satisfaction_percent scores = Some (Some (trunc_rat x))"
    if ne: "scores \<noteq> []"
  proof -
    have len: "int (length scores) \<noteq> 0" using ne by simp
    have "\<bar>sum_list scores\<bar> \<le> 2 ^ 200 * int (length scores)"
      using assms by (rule sum_list_abs_le)
    then have s: "\<bar>sum_list scores\<bar> \<le> 2 ^ 200 * \<bar>int (length scores)\<bar>" by simp
    have j: "(200::nat) < 1024" by simp
    obtain a where a: "int_truediv (sum_list scores) (int (length scores)) = Some (Fin a)"
      and a': "\<bar>a\<bar> \<le> 2 powi (int 200)"
      using int_truediv_fin[OF len s j] by blast
    have one: "\<bar>1::rat\<bar> \<le> 2 powi (int 200)" by simp
    have h1: "- 1074 \<le> int 200 + 1" "int 200 + 1 < 1024" by simp_all
    obtain d where d: "fsub (Fin a) (Fin 1) = Fin d" and d': "\<bar>d\<bar> \<le> 2 powi (int 200 + 1)"
      using fsub_fin[OF a' one h1] by blast
    have half: "\<bar>67 / 2 :: rat\<bar> \<le> 2 powi 6" by simp
    have h2: "- 1074 \<le> int 200 + 1 + 6" "int 200 + 1 + 6 < 1024" by simp_all
    obtain e where e: "fmul (Fin d) (Fin (67 / 2)) = Fin e"
      and e': "\<bar>e\<bar> \<le> 2 powi (int 200 + 1 + 6)"
      using fmul_fin[OF d' half h2] by blast
    have c33: "\<bar>33 :: rat\<bar> \<le> 2 powi (int 200 + 1 + 6)" by simp
    have h3: "- 1074 \<le> int 200 + 1 + 6 + 1" "int 200 + 1 + 6 + 1 < 1024" by simp_all
    obtain x where x: "fadd (Fin 33) (Fin e) = Fin x"
      using fadd_fin[OF c33 e' h3] by blast
    show ?thesis
      using ne a d e x
      by (simp add: satisfaction_value_def compute_satisfaction_percent_def lit_def
          round_double_numeral round_double_67_2)
  qed
  show ?thesis using empty main satisfaction_lowest satisfaction_highest by blast
qed

text \<open>C7, amended, at the scores 1 and 2.\<close>

theorem compute_satisfaction_percent_truncates_witness:
  "\<bar>1 :: int\<bar> \<le> 2 ^ 200 \<and> \<bar>2 :: int\<bar> \<le> 2 ^ 200 \<and> [1, 2 :: int] \<noteq> []
   \<and> (\<exists>x. satisfaction_value [1, 2] = Some (Fin x)
          \<and> compute_satisfaction_percent [1, 2] = Some (Some (trunc_rat x)))"
proof -
  have a1: "\<bar>1 :: int\<bar> \<le> 2 ^ 200" by simp
  have a2: "\<bar>2 :: int\<bar> \<le> 2 ^ 200" by simp
  from a1 a2 have b: "\<forall>s\<in>set [1, 2 :: int]. \<bar>s\<bar> \<le> 2 ^ 200" by simp
  have ne: "[1, 2 :: int] \<noteq> []" by simp
  have c: "\<exists>x. satisfaction_value [1, 2] = Some (Fin x)
          \<and> compute_satisfaction_percent [1, 2] = Some (Some (trunc_rat x))"
    using compute_satisfaction_percent_truncates [OF b] ne by blast
  from a1 a2 ne c show ?thesis by blast
qed
section \<open>Forecast of the next wave\<close>

lemma weekend_pattern_values:
  "weekend_pattern 10 = Some 7" "weekend_pattern 30 = Some 21" "weekend_pattern 40 = Some 28"
  "weekend_pattern 25 = Some 17" "weekend_pattern 15 = Some 10"
proof -
  have w2: "round_double (15762598695796735 / 2251799813685248) = Fin (7)"
    by (rule round_double_tie[where e = 2 and m = 7881299347898368]) simp_all
  have w3: "round_double (47287796087390205 / 2251799813685248) = Fin (21)"
    by (rule round_double_near[where e = 4 and m = 5910974510923776]) simp_all
  have w4: "round_double (15762598695796735 / 562949953421312) = Fin (28)"
    by (rule round_double_tie[where e = 4 and m = 7881299347898368]) simp_all
  have w5: "round_double (78812993478983675 / 4503599627370496) = Fin (35 / 2)"
    by (rule round_double_near[where e = 4 and m = 4925812092436480]) simp_all
  have w6: "round_double (47287796087390205 / 4503599627370496) = Fin (21 / 2)"
    by (rule round_double_near[where e = 3 and m = 5910974510923776]) simp_all
  have wt1: "trunc_rat (35 / 2) = 17"
    by (simp add: trunc_rat_def floor_eq_iff ceiling_eq_iff)
  have wt2: "trunc_rat (21 / 2) = 10"
    by (simp add: trunc_rat_def floor_eq_iff ceiling_eq_iff)
  show "weekend_pattern 10 = Some 7"
    by (simp add: weekend_pattern_def lit_7_10 float_of_int_def round_double_numeral w2 trunc_rat_def)
  show "weekend_pattern 30 = Some 21"
    by (simp add: weekend_pattern_def lit_7_10 float_of_int_def round_double_numeral w3 trunc_rat_def)
  show "weekend_pattern 40 = Some 28"
    by (simp add: weekend_pattern_def lit_7_10 float_of_int_def round_double_numeral w4 trunc_rat_def)
  show "weekend_pattern 25 = Some 17"
    by (simp add: weekend_pattern_def lit_7_10 float_of_int_def round_double_numeral w5 wt1)
  show "weekend_pattern 15 = Some 10"
    by (simp add: weekend_pattern_def lit_7_10 float_of_int_def round_double_numeral w6 wt2)
qed

lemma pattern_cases:
  assumes "idx = min (max wave_idx 0) 4"
  shows "EXPECTED_WAVES ! nat idx \<in> {10, 30, 40, 25, 15}"
proof -
  have "0 \<le> idx" "idx \<le> 4" using assms by auto
  then have "nat idx \<in> {0, 1, 2, 3, 4}" by auto
  then show ?thesis by (auto simp: EXPECTED_WAVES_def)
qed

lemma expected_in_wave_small:
  assumes "idx = min (max wave_idx 0) 4"
  shows "\<exists>v. (if 5 \<le> wd then weekend_pattern (EXPECTED_WAVES ! nat idx)
               else Some (EXPECTED_WAVES ! nat idx)) = Some v \<and> \<bar>v\<bar> \<le> 2 ^ 6"
  using pattern_cases[OF assms] by (auto simp: weekend_pattern_values)

lemma predict_as_blend:
  "predict_next_wave wd sd wave_idx m =
     Option.bind (blended_prediction wd (total_expected_diners sd) (diners_so_far sd) wave_idx m)
       (\<lambda>x. map_option (\<lambda>p. max p 0) (int_of_float x))"
  by (simp add: predict_next_wave_def blended_prediction_def weekend_pattern_def Let_def
      EXPECTED_WAVES_def split: Option.bind_split)

text \<open>
  C6, as stated: the prediction blends the pattern value, multiplied by 0.7 on weekend days,
  with the pace of the remaining diners, scales by the multiplier and truncates.  This fails
  on weekend days: the source truncates the discounted pattern value to an integer before it
  blends.  On a Saturday, for wave index 3 (pattern 25, discounted 17.5, truncated 17), with one
  diner still expected and multiplier 1, the code returns \<open>int(0.5 * 17 + 0.5 * 0.5) = 8\<close>,
  the stated formula gives \<open>0.5 * 17.5 + 0.5 * 0.5 = 9\<close>.
\<close>

theorem predict_next_wave_weekend_counterexample:
  "predict_next_wave 5 (new_service_day ''cafe'' 0\<lparr>total_expected_diners := 1\<rparr>) 3 (Fin 1) = Some 8
   \<and> spec_predict_next_wave 5 1 0 3 1 = 9"
proof -
  have r3: "round_double (1 / 2) = Fin (1 / 2)"
    by (rule round_double_near[where e = "- 1" and m = 4503599627370496]) simp_all
  have r4: "round_double (17 / 2) = Fin (17 / 2)"
    by (rule round_double_near[where e = 3 and m = 4785074604081152]) simp_all
  have r5: "round_double (1 / 4) = Fin (1 / 4)"
    by (rule round_double_near[where e = "- 2" and m = 4503599627370496]) simp_all
  have r6: "round_double (35 / 4) = Fin (35 / 4)"
    by (rule round_double_near[where e = 3 and m = 4925812092436480]) simp_all
  have rt2: "trunc_rat (35 / 4) = 8"
    by (simp add: trunc_rat_def floor_eq_iff ceiling_eq_iff)
  have code: "predict_next_wave 5 (new_service_day ''cafe'' 0\<lparr>total_expected_diners := 1\<rparr>) 3 (Fin 1)
      = Some 8"
    by (simp add: predict_as_blend blended_prediction_def EXPECTED_WAVES_def
        weekend_pattern_values new_service_day_def DEFAULT_SITE_ID_def Let_def
        int_truediv_def float_of_int_def round_double_numeral lit_half r3 r4 r5 r6 rt2)
  have spec: "spec_predict_next_wave 5 1 0 3 1 = 9"
    by (simp add: spec_predict_next_wave_def EXPECTED_WAVES_def Let_def trunc_rat_def)
  show ?thesis using code spec by simp
qed


text \<open>
  C6, amended: \<open>predict_next_wave\<close> clamps the wave index into the pattern for the lookup, takes
  the pattern value there, on weekend days multiplied by 0.7 and truncated to an integer;
  with \<open>remainingExpected = max(totalExpected - dinersSoFar, 0)\<close>,
  \<open>remainingWaves = max(totalWaves - waveIndex, 1)\<close> (the wave index as given) and
  \<open>baseForWave = remainingExpected / remainingWaves\<close> it returns
  \<open>(0.5 * expectedInWave + 0.5 * baseForWave) * multiplier\<close>, computed in double precision and
  truncated toward zero, and never less than 0.  It returns for every finite multiplier and
  every count of remaining diners of magnitude up to \<open>2^200\<close>.
\<close>

theorem predict_next_wave_blend:
  assumes "total_expected_diners sd - diners_so_far sd \<le> 2 ^ 200" "\<bar>m\<bar> \<le> 2 ^ 200"
  shows "\<exists>x. blended_prediction wd (total_expected_diners sd) (diners_so_far sd) wave_idx (Fin m)
               = Some (Fin x)
           \<and> predict_next_wave wd sd wave_idx (Fin m) = Some (max (trunc_rat x) 0)
           \<and> 0 \<le> max (trunc_rat x) 0"
proof -
  define idx where "idx = min (max wave_idx 0) 4"
  define remaining where "remaining = max (total_expected_diners sd - diners_so_far sd) 0"
  define rw where "rw = max (5 - wave_idx) 1"
  obtain v where v: "(if 5 \<le> wd then weekend_pattern (EXPECTED_WAVES ! nat idx)
                      else Some (EXPECTED_WAVES ! nat idx)) = Some v" and v': "\<bar>v\<bar> \<le> 2 ^ 6"
    using expected_in_wave_small[OF idx_def] by blast
  have rw0: "rw \<noteq> 0" and rw1: "1 \<le> \<bar>rw\<bar>" by (simp_all add: rw_def)
  have "\<bar>remaining\<bar> \<le> 2 ^ 200" using assms(1) by (simp add: remaining_def)
  also have "\<dots> \<le> 2 ^ 200 * \<bar>rw\<bar>" using rw1 by simp
  finally have rem: "\<bar>remaining\<bar> \<le> 2 ^ 200 * \<bar>rw\<bar>" .
  have j: "(200::nat) < 1024" "(6::nat) < 1024" by simp_all
  obtain bs where bs: "int_truediv remaining rw = Some (Fin bs)" and bs': "\<bar>bs\<bar> \<le> 2 powi (int 200)"
    using int_truediv_fin[OF rw0 rem j(1)] by blast
  obtain ev where ev: "float_of_int v = Some (Fin ev)" and ev': "\<bar>ev\<bar> \<le> 2 powi (int 6)"
    using float_of_int_fin[OF v' j(2)] by blast
  have hf: "\<bar>1 / 2 :: rat\<bar> \<le> 2 powi 0" by simp
  have h1: "- 1074 \<le> 0 + int 6" "0 + int 6 < 1024" by simp_all
  obtain a where a: "fmul (Fin (1 / 2)) (Fin ev) = Fin a" and a': "\<bar>a\<bar> \<le> 2 powi (0 + int 6)"
    using fmul_fin[OF hf ev' h1] by blast
  have h2: "- 1074 \<le> 0 + int 200" "0 + int 200 < 1024" by simp_all
  obtain b where b: "fmul (Fin (1 / 2)) (Fin bs) = Fin b" and b': "\<bar>b\<bar> \<le> 2 powi (0 + int 200)"
    using fmul_fin[OF hf bs' h2] by blast
  have "0 + int 6 \<le> 0 + int 200" by simp
  then have a200: "\<bar>a\<bar> \<le> 2 powi (0 + int 200)" using a' by (rule pow2_le_mono)
  have h3: "- 1074 \<le> 0 + int 200 + 1" "0 + int 200 + 1 < 1024" by simp_all
  obtain s where s: "fadd (Fin a) (Fin b) = Fin s" and s': "\<bar>s\<bar> \<le> 2 powi (0 + int 200 + 1)"
    using fadd_fin[OF a200 b' h3] by blast
  have m': "\<bar>m\<bar> \<le> 2 powi (int 200)" using assms(2) by simp
  have h4: "- 1074 \<le> 0 + int 200 + 1 + int 200" "0 + int 200 + 1 + int 200 < 1024" by simp_all
  obtain x where x: "fmul (Fin s) (Fin m) = Fin x"
    using fmul_fin[OF s' m' h4] by blast
  have blend: "blended_prediction wd (total_expected_diners sd) (diners_so_far sd) wave_idx (Fin m)
      = Some (Fin x)"
    using v bs ev a b s x
    by (simp add: blended_prediction_def lit_half Let_def
        idx_def[symmetric] remaining_def[symmetric] rw_def[symmetric])
  then show ?thesis by (simp add: predict_as_blend)
qed

text \<open>C6, amended, at the fresh session of the default site, wave index 2, a Monday.\<close>

theorem predict_next_wave_blend_witness:
  "total_expected_diners (new_service_day ''flavoria'' 0) - diners_so_far (new_service_day ''flavoria'' 0)
     \<le> 2 ^ 200
   \<and> \<bar>1 :: rat\<bar> \<le> 2 ^ 200
   \<and> (\<exists>x. blended_prediction 0 (total_expected_diners (new_service_day ''flavoria'' 0))
               (diners_so_far (new_service_day ''flavoria'' 0)) 2 (Fin 1) = Some (Fin x)
          \<and> predict_next_wave 0 (new_service_day ''flavoria'' 0) 2 (Fin 1) = Some (max (trunc_rat x) 0)
          \<and> 0 \<le> max (trunc_rat x) 0)"
proof -
  let ?sd = "new_service_day ''flavoria'' 0"
  have b: "total_expected_diners ?sd - diners_so_far ?sd \<le> 2 ^ 200"
    by (simp add: new_service_day_def DEFAULT_SITE_ID_def)
  have c: "\<bar>1 :: rat\<bar> \<le> 2 ^ 200" by simp
  from predict_next_wave_blend [OF b c, of 0 2] b c show ?thesis by blast
qed

section \<open>The done action and the pan\<close>

lemma example_session_found:
  "get_or_create_service_day example_world ''flavoria'' 0 = (example_world, Some example_day)"
  by (simp add: get_or_create_service_day_def example_world_def)

lemma example_matching:
  "get_matching_decision b example_day (or_empty matching_payload) = Some (Some example_card)"
  by (simp add: get_matching_decision_def example_day_def example_card_def matching_payload_def
      or_empty_def dict_get_def py_str_def)

lemma example_adjust:
  "adjust_pan_after_refill example_day 0 160 20
     = Some (example_day\<lparr>ServiceDay.pan_fill_percent := 57\<rparr>)"
proof -
  have r1: "round_double (29 / 50) = Fin (5224175567749775 / 9007199254740992)"
    by (rule round_double_near[where e = "- 1" and m = 5224175567749775]) simp_all
  have r2: "round_double (26120877838748875 / 2251799813685248) = Fin (6530219459687219 / 562949953421312)"
    by (rule round_double_near[where e = 3 and m = 6530219459687219]) simp_all
  have r3: "round_double (6530219459687219 / 562949953421312) = Fin (6530219459687219 / 562949953421312)"
    by (rule round_double_near[where e = 3 and m = 6530219459687219]) simp_all
  have r4: "round_double (6530219459687219 / 11258999068426240) = Fin (5224175567749775 / 9007199254740992)"
    by (rule round_double_near[where e = "- 1" and m = 5224175567749775]) simp_all
  have r5: "round_double (130604389193744375 / 2251799813685248) = Fin (8162774324609023 / 140737488355328)"
    by (rule round_double_near[where e = 5 and m = 8162774324609023]) simp_all
  have rt1: "trunc_rat (8162774324609023 / 140737488355328) = 57"
    by (simp add: trunc_rat_def floor_eq_iff ceiling_eq_iff)
  have pan: "ServiceDay.pan_fill_percent example_day = 58"
    by (simp add: example_day_def)
  show ?thesis
    by (simp add: adjust_pan_after_refill_def pan eval_simps r1 r2 r3 r4 r5 rt1)
qed

text \<open>
  C4 says that a \<open>done\<close> action with a matching identity raises the pan by exactly
  \<open>suggestedGrams / portionGrams\<close> portions, up to full capacity.  The code fails this at the
  example session: the pan stands at 58 percent, the active card asks for 0 grams, the request
  carries the card's identity, and the action answers 57 and leaves the session registered
  with the pan at 57 percent.  The conversion of
  the percentage to portions and back, \<open>int((58 / 100.0 * 20) / 20 * 100)\<close>, loses one point to
  the rounding of the doubles and the truncation of \<open>int\<close>.
\<close>

theorem done_lowers_pan_fill:
  "ServiceDay.pan_fill_percent example_day = 58
   \<and> get_matching_decision b example_day (or_empty matching_payload) = Some (Some example_card)
   \<and> suggested_grams example_card = 0
   \<and> api_done b example_world ''flavoria'' 0 matching_payload
       = (put_service_day example_world (''flavoria'', 0)
            (example_day\<lparr>ServiceDay.pan_fill_percent := 57,
                          last_decision := Some (example_card\<lparr>status := Done\<rparr>)\<rparr>),
          Ok_done 57)
   \<and> map_option ServiceDay.pan_fill_percent
         (SERVICE_DAYS (fst (api_done b example_world ''flavoria'' 0 matching_payload))
            (''flavoria'', 0))
       = Some 57"
proof -
  have pan: "ServiceDay.pan_fill_percent example_day = 58"
    by (simp add: example_day_def)
  have g: "suggested_grams example_card = 0"
    by (simp add: example_card_def)
  have site: "portion_grams (get_site_config ''flavoria'') = 160"
    "pan_capacity_portions (get_site_config ''flavoria'') = 20"
    by (simp_all add: get_site_config_def default_site_def)
  have "api_done b example_world ''flavoria'' 0 matching_payload
       = (put_service_day example_world (''flavoria'', 0)
            (example_day\<lparr>ServiceDay.pan_fill_percent := 57,
                          last_decision := Some (example_card\<lparr>status := Done\<rparr>)\<rparr>),
          Ok_done 57)"
    by (simp add: api_done_def Let_def example_session_found example_matching g site
        example_adjust)
  then show ?thesis using pan g example_matching by (simp add: put_service_day_def)
qed

section \<open>Staleness guard\<close>

lemma dict_get_Nil [simp]: "dict_get [] key = JNull"
  by (simp add: dict_get_def)

lemma matching_decision_fields:
  assumes "last_decision sd = Some c" and "obj \<noteq> []"
  shows "get_matching_decision b sd (JObj obj) =
           (let wave = dict_get obj ''decision_wave_index'';
                ts = dict_get obj ''decision_timestamp'';
                slot = dict_get obj ''service_slot''
            in if wave \<noteq> JNull \<and> py_int b wave = None then None
               else if (wave \<noteq> JNull \<and> py_int b wave \<noteq> Some (DecisionCard.wave_index c))
                       \<or> (ts \<noteq> JNull \<and> ts \<noteq> JStr (timestamp c))
                       \<or> (slot \<noteq> JNull \<and> py_str b slot \<noteq> service_slot c)
                    then Some None
               else Some (Some c))"
  using assms by (auto simp: get_matching_decision_def Let_def split: option.splits)

lemma matching_decision_falsy:
  assumes "last_decision sd = Some c" and "\<not> truthy body"
  shows "get_matching_decision b sd (or_empty body) = Some (Some c)"
  using assms by (simp add: get_matching_decision_def or_empty_def)

lemma example_registry:
  "SERVICE_DAYS example_world (''flavoria'', 0) = Some example_day"
  "last_decision example_day = Some example_card"
  by (simp_all add: example_world_def example_day_def)

text \<open>
  C5, as stated: a \<open>done\<close> or \<open>skip\<close> request whose supplied identity triple does not exactly
  match the active card is rejected with StaleDecision.  This fails: the guard compares the
  card's wave index with \<open>int(...)\<close> of the supplied one.  At the example session the card is
  that of wave 4; a request that supplies the wave index \<open>4.5\<close> with the card's timestamp and
  slot is accepted, \<open>skip\<close> marks the card skipped and \<open>done\<close> rewrites the pan fill and marks
  the card done.  A request that supplies the wave index \<open>"abc"\<close> is not answered with
  StaleDecision either: \<open>int\<close> raises and the request fails.
\<close>

theorem coerced_wave_index_counterexample:
  "last_decision example_day = Some example_card
   \<and> coerced_payload
       = JObj [(''decision_wave_index'', JFloat (Fin (9 / 2))),
               (''decision_timestamp'', JStr (timestamp example_card)),
               (''service_slot'', JStr (service_slot example_card))]
   \<and> JFloat (Fin (9 / 2)) \<noteq> JInt (DecisionCard.wave_index example_card)
   \<and> api_skip example_builtins example_world ''flavoria'' 0 coerced_payload
       = (put_service_day example_world (''flavoria'', 0)
            (example_day\<lparr>last_decision := Some (example_card\<lparr>status := Skipped\<rparr>)\<rparr>),
          Ok_skipped)
   \<and> SERVICE_DAYS (fst (api_skip example_builtins example_world ''flavoria'' 0 coerced_payload))
         (''flavoria'', 0)
       = Some (example_day\<lparr>last_decision := Some (example_card\<lparr>status := Skipped\<rparr>)\<rparr>)
   \<and> SERVICE_DAYS (fst (api_done example_builtins example_world ''flavoria'' 0 coerced_payload))
         (''flavoria'', 0)
       = Some (example_day\<lparr>ServiceDay.pan_fill_percent := 57,
                             last_decision := Some (example_card\<lparr>status := Done\<rparr>)\<rparr>)
   \<and> api_skip example_builtins example_world ''flavoria'' 0 unreadable_payload
       = (example_world, ServerError)
   \<and> api_done example_builtins example_world ''flavoria'' 0 unreadable_payload
       = (example_world, ServerError)"
proof -
  have t: "trunc_rat (9 / 2) = 4"
    by (simp add: trunc_rat_def floor_eq_iff)
  have m: "get_matching_decision example_builtins example_day (or_empty coerced_payload)
             = Some (Some example_card)"
    by (simp add: get_matching_decision_def example_day_def example_card_def coerced_payload_def
        or_empty_def dict_get_def py_str_def t)
  have u: "get_matching_decision example_builtins example_day (or_empty unreadable_payload) = None"
    by (simp add: get_matching_decision_def example_day_def example_card_def
        unreadable_payload_def or_empty_def dict_get_def example_builtins_def)
  have g: "suggested_grams example_card = 0"
    by (simp add: example_card_def)
  have site: "portion_grams (get_site_config ''flavoria'') = 160"
    "pan_capacity_portions (get_site_config ''flavoria'') = 20"
    by (simp_all add: get_site_config_def default_site_def)
  have skip: "api_skip example_builtins example_world ''flavoria'' 0 coerced_payload
       = (put_service_day example_world (''flavoria'', 0)
            (example_day\<lparr>last_decision := Some (example_card\<lparr>status := Skipped\<rparr>)\<rparr>),
          Ok_skipped)"
    by (simp add: api_skip_def Let_def example_session_found m)
  have dn: "api_done example_builtins example_world ''flavoria'' 0 coerced_payload
       = (put_service_day example_world (''flavoria'', 0)
            (example_day\<lparr>ServiceDay.pan_fill_percent := 57,
                          last_decision := Some (example_card\<lparr>status := Done\<rparr>)\<rparr>),
          Ok_done 57)"
    by (simp add: api_done_def Let_def example_session_found m g site example_adjust)
  have bad: "api_skip example_builtins example_world ''flavoria'' 0 unreadable_payload
       = (example_world, ServerError)"
    "api_done example_builtins example_world ''flavoria'' 0 unreadable_payload
       = (example_world, ServerError)"
    by (simp_all add: api_skip_def api_done_def Let_def example_session_found u)
  have c: "coerced_payload
       = JObj [(''decision_wave_index'', JFloat (Fin (9 / 2))),
               (''decision_timestamp'', JStr (timestamp example_card)),
               (''service_slot'', JStr (service_slot example_card))]"
    by (simp add: coerced_payload_def example_card_def)
  show ?thesis
    using example_registry(2) c bad by (simp add: skip dn put_service_day_def)
qed

text \<open>
  C5, amended: the guard compares each field that a \<open>done\<close> or \<open>skip\<close> request supplies with the
  active card's after conversion: the wave index through \<open>int(...)\<close>, the slot through
  \<open>str(...)\<close>, the timestamp as it is.  When \<open>int\<close> accepts the supplied wave index (or none is
  supplied) and one of the supplied given then differs from the card's, the request is
  rejected with StaleDecision, and the rejection changes nothing: the whole world after the
  request is the world before it, so the pan fill and the status of the card are what they
  were.
\<close>

theorem stale_request_rejected:
  assumes "SERVICE_DAYS w (sid, day) = Some sd" and "last_decision sd = Some c"
    and "wave = dict_get obj ''decision_wave_index''"
    and "ts = dict_get obj ''decision_timestamp''"
    and "slot = dict_get obj ''service_slot''"
    and "wave = JNull \<or> py_int b wave \<noteq> None"
    and "(wave \<noteq> JNull \<and> py_int b wave \<noteq> Some (DecisionCard.wave_index c))
         \<or> (ts \<noteq> JNull \<and> ts \<noteq> JStr (timestamp c))
         \<or> (slot \<noteq> JNull \<and> py_str b slot \<noteq> service_slot c)"
  shows "api_done b w sid day (JObj obj) = (w, StaleDecision)
         \<and> api_skip b w sid day (JObj obj) = (w, StaleDecision)"
proof -
  have ne: "obj \<noteq> []"
    using assms(3-5,7) by auto
  then have e: "or_empty (JObj obj) = JObj obj"
    by (simp add: or_empty_def)
  have "get_matching_decision b sd (JObj obj) = Some None"
    unfolding matching_decision_fields[OF assms(2) ne] Let_def
    using assms(3-7) by auto
  then show ?thesis
    by (simp add: api_done_def api_skip_def Let_def get_or_create_existing[OF assms(1)] e)
qed

text \<open>C5, amended, at the example session, with the identity of the card of the wave before.\<close>

theorem stale_request_rejected_witness:
  "SERVICE_DAYS example_world (''flavoria'', 0) = Some example_day
   \<and> last_decision example_day = Some example_card
   \<and> py_int example_builtins (JInt 3) = Some 3
   \<and> 3 \<noteq> DecisionCard.wave_index example_card
   \<and> api_done example_builtins example_world ''flavoria'' 0 stale_payload
       = (example_world, StaleDecision)
   \<and> api_skip example_builtins example_world ''flavoria'' 0 stale_payload
       = (example_world, StaleDecision)"
proof -
  let ?obj = "[(''decision_wave_index'', JInt 3), (''decision_timestamp'', JStr ''2025-03-03T12:35:00''),
               (''service_slot'', JStr ''favourite_1'')]"
  have p: "stale_payload = JObj ?obj"
    by (simp add: stale_payload_def)
  have w: "JInt 3 = dict_get ?obj ''decision_wave_index''"
    "JStr ''2025-03-03T12:35:00'' = dict_get ?obj ''decision_timestamp''"
    "JStr ''favourite_1'' = dict_get ?obj ''service_slot''"
    by (simp_all add: dict_get_def)
  have i: "JInt 3 = JNull \<or> py_int example_builtins (JInt 3) \<noteq> None"
    by simp
  have n: "3 \<noteq> DecisionCard.wave_index example_card"
    by (simp add: example_card_def)
  then have d: "(JInt 3 \<noteq> JNull
          \<and> py_int example_builtins (JInt 3) \<noteq> Some (DecisionCard.wave_index example_card))
         \<or> (JStr ''2025-03-03T12:35:00'' \<noteq> JNull
             \<and> JStr ''2025-03-03T12:35:00'' \<noteq> JStr (timestamp example_card))
         \<or> (JStr ''favourite_1'' \<noteq> JNull
             \<and> py_str example_builtins (JStr ''favourite_1'') \<noteq> service_slot example_card)"
    by simp
  have r: "api_done example_builtins example_world ''flavoria'' 0 (JObj ?obj)
             = (example_world, StaleDecision)
           \<and> api_skip example_builtins example_world ''flavoria'' 0 (JObj ?obj)
             = (example_world, StaleDecision)"
    using stale_request_rejected [OF example_registry w i d] .
  show ?thesis
    using example_registry n r by (simp add: p)
qed

lemma int_of_float_Fin: "int_of_float (Fin x) = Some (trunc_rat x)"
  by simp

lemma adjust_pan_total:
  assumes "\<bar>ServiceDay.pan_fill_percent sd\<bar> \<le> 2 ^ 200" "\<bar>grams\<bar> \<le> 2 ^ 200"
  shows "\<exists>pan. adjust_pan_after_refill sd grams 160 20
                 = Some (sd\<lparr>ServiceDay.pan_fill_percent := pan\<rparr>)"
proof -
  have j: "(200::nat) < 1024" by simp
  have "\<exists>pa. (if grams \<noteq> 0 then int_truediv grams 160 else Some (Fin 0)) = Some (Fin pa)
             \<and> \<bar>pa\<bar> \<le> 2 powi (int 200)"
  proof (cases "grams = 0")
    case True
    then show ?thesis by simp
  next
    case False
    have n0: "(160::int) \<noteq> 0" by simp
    have "\<bar>grams\<bar> \<le> 2 ^ 200 * \<bar>160 :: int\<bar>" using assms(2) by simp
    from int_truediv_fin[OF n0 this j] show ?thesis using False by simp
  qed
  then obtain pa where pa: "(if grams \<noteq> 0 then int_truediv grams 160 else Some (Fin 0)) = Some (Fin pa)"
    and pa': "\<bar>pa\<bar> \<le> 2 powi (int 200)" by blast
  obtain a where a: "float_of_int (ServiceDay.pan_fill_percent sd) = Some (Fin a)"
    and a': "\<bar>a\<bar> \<le> 2 powi (int 200)"
    using float_of_int_fin[OF assms(1) j] by blast
  have h: "(1::rat) \<le> \<bar>100\<bar>" "- 1074 \<le> int 200" "int 200 < 1024" by simp_all
  obtain fr where fr: "fdiv (Fin a) (Fin 100) = Some (Fin fr)" and fr': "\<bar>fr\<bar> \<le> 2 powi (int 200)"
    using fdiv_fin[OF a' h] by blast
  have cap: "float_of_int 20 = Some (Fin 20)"
    by (simp add: float_of_int_def round_double_numeral)
  have c': "\<bar>20 :: rat\<bar> \<le> 2 powi 5" by simp
  have h2: "- 1074 \<le> int 200 + 5" "int 200 + 5 < 1024" by simp_all
  obtain cur where cur: "fmul (Fin fr) (Fin 20) = Fin cur" and cur': "\<bar>cur\<bar> \<le> 2 powi (int 200 + 5)"
    using fmul_fin[OF fr' c' h2] by blast
  have "int 200 \<le> int 200 + 5" by simp
  then have pa5: "\<bar>pa\<bar> \<le> 2 powi (int 200 + 5)" using pa' by (rule pow2_le_mono)
  have h3: "- 1074 \<le> int 200 + 5 + 1" "int 200 + 5 + 1 < 1024" by simp_all
  obtain fl where fl: "fadd (Fin cur) (Fin pa) = Fin fl" and fl': "\<bar>fl\<bar> \<le> 2 powi (int 200 + 5 + 1)"
    using fadd_fin[OF cur' pa5 h3] by blast
  have h4: "(1::rat) \<le> \<bar>20\<bar>" "- 1074 \<le> int 200 + 5 + 1" "int 200 + 5 + 1 < 1024" by simp_all
  obtain q where q: "fdiv (Fin fl) (Fin 20) = Some (Fin q)"
    using fdiv_fin[OF fl' h4] by blast
  have one: "int_truediv 20 20 = Some (Fin 1)"
    by (simp add: int_truediv_def)
  have "\<exists>ratio. (if flt (Fin fl) (Fin (of_int 20)) then fdiv (Fin fl) (Fin 20)
                  else int_truediv 20 20) = Some (Fin ratio) \<and> \<bar>ratio\<bar> \<le> 2 powi (int 200 + 5 + 1)"
  proof (cases "fl < 20")
    case True
    obtain q where "fdiv (Fin fl) (Fin 20) = Some (Fin q)" "\<bar>q\<bar> \<le> 2 powi (int 200 + 5 + 1)"
      using fdiv_fin[OF fl' h4] by blast
    then show ?thesis using True by simp
  next
    case False
    have "\<bar>1 :: rat\<bar> \<le> 2 powi (int 200 + 5 + 1)" by simp
    then show ?thesis using False one by simp
  qed
  then obtain ratio where ratio: "(if flt (Fin fl) (Fin (of_int 20)) then fdiv (Fin fl) (Fin 20)
                  else int_truediv 20 20) = Some (Fin ratio)"
    and ratio': "\<bar>ratio\<bar> \<le> 2 powi (int 200 + 5 + 1)" by blast
  have c100: "\<bar>100 :: rat\<bar> \<le> 2 powi 7" by simp
  have h5: "- 1074 \<le> int 200 + 5 + 1 + 7" "int 200 + 5 + 1 + 7 < 1024" by simp_all
  obtain x where x: "fmul (Fin ratio) (Fin 100) = Fin x"
    using fmul_fin[OF ratio' c100 h5] by blast
  have "adjust_pan_after_refill sd grams 160 20
          = Some (sd\<lparr>ServiceDay.pan_fill_percent := trunc_rat x\<rparr>)"
    using pa a fr cap cur fl ratio x
    by (simp add: adjust_pan_after_refill_def lit_100)
  then show ?thesis by blast
qed

section \<open>Requests without an identity\<close>

lemma refill_registry:
  "SERVICE_DAYS refill_world (''flavoria'', 0) = Some refill_day"
  "last_decision refill_day = Some refill_card"
  "ServiceDay.pan_fill_percent refill_day = 50"
  "suggested_grams refill_card = 800"
  by (simp_all add: refill_world_def refill_day_def refill_card_def)

lemma refill_adjust:
  "adjust_pan_after_refill refill_day 800 160 20
     = Some (refill_day\<lparr>ServiceDay.pan_fill_percent := 75\<rparr>)"
proof -
  have r1: "round_double (1 / 2) = Fin (1 / 2)"
    by (rule round_double_near[where e = "- 1" and m = 4503599627370496]) simp_all
  have r2: "round_double (3 / 4) = Fin (3 / 4)"
    by (rule round_double_near[where e = "- 1" and m = 6755399441055744]) simp_all
  show ?thesis
    by (simp add: adjust_pan_after_refill_def refill_registry(3) eval_simps r1 r2 trunc_rat_def)
qed

text \<open>
  C10: the staleness guard treats every absent field of the identity triple as a wildcard: a
  dictionary matches the active card exactly when none of the given that it supplies differs
  from the card's (after \<open>int(...)\<close> of the wave index and \<open>str(...)\<close> of the slot).  So a request
  that supplies none of the three, be its body missing, empty or a dictionary without them,
  matches whatever card is active, and the action succeeds and mutates the session: after
  \<open>skip\<close> the registry holds the session with its card marked skipped; after \<open>done\<close> it holds the
  session with its card marked done and the pan fill that \<open>adjust_pan_after_refill\<close> computes
  from the card's grams, which is also the answer.  No other session and nothing in the event
  store changes.  (The bounds on the pan fill and the grams only keep the arithmetic of \<open>done\<close>
  inside the range of the doubles.)
\<close>

theorem identity_free_request_matches:
  assumes "SERVICE_DAYS w (sid, day) = Some sd" and "last_decision sd = Some c"
    and "\<not> truthy body
         \<or> (\<exists>obj. body = JObj obj \<and> dict_get obj ''decision_wave_index'' = JNull
                  \<and> dict_get obj ''decision_timestamp'' = JNull
                  \<and> dict_get obj ''service_slot'' = JNull)"
    and "\<bar>ServiceDay.pan_fill_percent sd\<bar> \<le> 2 ^ 200" and "\<bar>suggested_grams c\<bar> \<le> 2 ^ 200"
  shows "(given \<noteq> [] \<and> (dict_get given ''decision_wave_index'' = JNull
                            \<or> py_int b (dict_get given ''decision_wave_index'') \<noteq> None)
          \<longrightarrow> get_matching_decision b sd (JObj given) =
                Some (if (dict_get given ''decision_wave_index'' \<noteq> JNull
                          \<and> py_int b (dict_get given ''decision_wave_index'')
                              \<noteq> Some (DecisionCard.wave_index c))
                         \<or> (dict_get given ''decision_timestamp'' \<noteq> JNull
                             \<and> dict_get given ''decision_timestamp'' \<noteq> JStr (timestamp c))
                         \<or> (dict_get given ''service_slot'' \<noteq> JNull
                             \<and> py_str b (dict_get given ''service_slot'') \<noteq> service_slot c)
                      then None else Some c))
         \<and> get_matching_decision b sd (or_empty body) = Some (Some c)
         \<and> (\<exists>w'. api_skip b w sid day body = (w', Ok_skipped)
                \<and> SERVICE_DAYS w'
                    = (SERVICE_DAYS w)((sid, day) \<mapsto> sd\<lparr>last_decision := Some (c\<lparr>status := Skipped\<rparr>)\<rparr>)
                \<and> REDIS_CLIENT w' = REDIS_CLIENT w)
         \<and> (\<exists>w' pan. adjust_pan_after_refill sd (suggested_grams c) 160 20
                      = Some (sd\<lparr>ServiceDay.pan_fill_percent := pan\<rparr>)
                \<and> api_done b w sid day body = (w', Ok_done pan)
                \<and> SERVICE_DAYS w'
                    = (SERVICE_DAYS w)((sid, day) \<mapsto>
                         sd\<lparr>ServiceDay.pan_fill_percent := pan,
                            last_decision := Some (c\<lparr>status := Done\<rparr>)\<rparr>)
                \<and> REDIS_CLIENT w' = REDIS_CLIENT w)"
proof -
  have m: "get_matching_decision b sd (or_empty body) = Some (Some c)"
  proof (cases "truthy body")
    case False
    then show ?thesis by (rule matching_decision_falsy[OF assms(2)])
  next
    case True
    then obtain obj where o: "body = JObj obj" "dict_get obj ''decision_wave_index'' = JNull"
      "dict_get obj ''decision_timestamp'' = JNull" "dict_get obj ''service_slot'' = JNull"
      using assms(3) by blast
    have ne: "obj \<noteq> []" using True o(1) by simp
    show ?thesis
      using True o matching_decision_fields[OF assms(2) ne, of b]
      by (simp add: or_empty_def)
  qed
  have skip: "api_skip b w sid day body
             = (put_service_day w (sid, day) (sd\<lparr>last_decision := Some (c\<lparr>status := Skipped\<rparr>)\<rparr>),
                Ok_skipped)"
    by (simp add: api_skip_def Let_def get_or_create_existing[OF assms(1)] m)
  obtain pan where adj: "adjust_pan_after_refill sd (suggested_grams c) 160 20
                 = Some (sd\<lparr>ServiceDay.pan_fill_percent := pan\<rparr>)"
    using adjust_pan_total[OF assms(4,5)] by blast
  have site: "portion_grams (get_site_config sid) = 160"
    "pan_capacity_portions (get_site_config sid) = 20"
    by (simp_all add: get_site_config_def default_site_def)
  have dn: "api_done b w sid day body
               = (put_service_day w (sid, day)
                    (sd\<lparr>ServiceDay.pan_fill_percent := pan,
                        last_decision := Some (c\<lparr>status := Done\<rparr>)\<rparr>),
                  Ok_done pan)"
    by (simp add: api_done_def Let_def get_or_create_existing[OF assms(1)] m site adj)
  have general: "given \<noteq> [] \<and> (dict_get given ''decision_wave_index'' = JNull
                            \<or> py_int b (dict_get given ''decision_wave_index'') \<noteq> None)
          \<longrightarrow> get_matching_decision b sd (JObj given) =
                Some (if (dict_get given ''decision_wave_index'' \<noteq> JNull
                          \<and> py_int b (dict_get given ''decision_wave_index'')
                              \<noteq> Some (DecisionCard.wave_index c))
                         \<or> (dict_get given ''decision_timestamp'' \<noteq> JNull
                             \<and> dict_get given ''decision_timestamp'' \<noteq> JStr (timestamp c))
                         \<or> (dict_get given ''service_slot'' \<noteq> JNull
                             \<and> py_str b (dict_get given ''service_slot'') \<noteq> service_slot c)
                      then None else Some c)"
  proof (intro impI)
    assume h: "given \<noteq> [] \<and> (dict_get given ''decision_wave_index'' = JNull
                            \<or> py_int b (dict_get given ''decision_wave_index'') \<noteq> None)"
    then have ne: "given \<noteq> []" by simp
    show "get_matching_decision b sd (JObj given) =
                Some (if (dict_get given ''decision_wave_index'' \<noteq> JNull
                          \<and> py_int b (dict_get given ''decision_wave_index'')
                              \<noteq> Some (DecisionCard.wave_index c))
                         \<or> (dict_get given ''decision_timestamp'' \<noteq> JNull
                             \<and> dict_get given ''decision_timestamp'' \<noteq> JStr (timestamp c))
                         \<or> (dict_get given ''service_slot'' \<noteq> JNull
                             \<and> py_str b (dict_get given ''service_slot'') \<noteq> service_slot c)
                      then None else Some c)"
      unfolding matching_decision_fields[OF assms(2) ne] Let_def using h by auto
  qed
  have s': "\<exists>w'. api_skip b w sid day body = (w', Ok_skipped)
                \<and> SERVICE_DAYS w'
                    = (SERVICE_DAYS w)((sid, day) \<mapsto> sd\<lparr>last_decision := Some (c\<lparr>status := Skipped\<rparr>)\<rparr>)
                \<and> REDIS_CLIENT w' = REDIS_CLIENT w"
    by (simp add: skip put_service_day_def)
  have d': "\<exists>w' pan. adjust_pan_after_refill sd (suggested_grams c) 160 20
                      = Some (sd\<lparr>ServiceDay.pan_fill_percent := pan\<rparr>)
                \<and> api_done b w sid day body = (w', Ok_done pan)
                \<and> SERVICE_DAYS w'
                    = (SERVICE_DAYS w)((sid, day) \<mapsto>
                         sd\<lparr>ServiceDay.pan_fill_percent := pan,
                            last_decision := Some (c\<lparr>status := Done\<rparr>)\<rparr>)
                \<and> REDIS_CLIENT w' = REDIS_CLIENT w"
    using adj by (simp add: dn put_service_day_def)
  show ?thesis
    using general m s' d' by (intro conjI)
qed

text \<open>
  C10 at a session with the pan half full and a card that asks for 800 grams, five portions
  of the twenty that the pan holds: a \<open>done\<close> request without a body is answered with the pan
  at 75 percent, and the registry holds the session with that pan fill and its card marked
  done; a \<open>skip\<close> request whose body is an empty dictionary leaves the card marked skipped.
\<close>

theorem identity_free_request_matches_witness:
  "SERVICE_DAYS refill_world (''flavoria'', 0) = Some refill_day
   \<and> last_decision refill_day = Some refill_card
   \<and> \<bar>ServiceDay.pan_fill_percent refill_day\<bar> \<le> 2 ^ 200
   \<and> \<bar>suggested_grams refill_card\<bar> \<le> 2 ^ 200
   \<and> api_done example_builtins refill_world ''flavoria'' 0 JNull
       = (refill_world\<lparr>SERVICE_DAYS :=
            [(''flavoria'', 0) \<mapsto>
               refill_day\<lparr>ServiceDay.pan_fill_percent := 75,
                          last_decision := Some (refill_card\<lparr>status := Done\<rparr>)\<rparr>]\<rparr>,
          Ok_done 75)
   \<and> api_skip example_builtins refill_world ''flavoria'' 0 (JObj [])
       = (refill_world\<lparr>SERVICE_DAYS :=
            [(''flavoria'', 0) \<mapsto> refill_day\<lparr>last_decision := Some (refill_card\<lparr>status := Skipped\<rparr>)\<rparr>]\<rparr>,
          Ok_skipped)"
proof -
  have d: "\<bar>ServiceDay.pan_fill_percent refill_day\<bar> \<le> 2 ^ 200"
    by (simp add: refill_registry)
  have e: "\<bar>suggested_grams refill_card\<bar> \<le> 2 ^ 200"
    by (simp add: refill_registry)
  have n: "\<not> truthy JNull
         \<or> (\<exists>obj. JNull = JObj obj \<and> dict_get obj ''decision_wave_index'' = JNull
                  \<and> dict_get obj ''decision_timestamp'' = JNull
                  \<and> dict_get obj ''service_slot'' = JNull)"
    by simp
  have o: "\<not> truthy (JObj [])
         \<or> (\<exists>obj. JObj [] = JObj obj \<and> dict_get obj ''decision_wave_index'' = JNull
                  \<and> dict_get obj ''decision_timestamp'' = JNull
                  \<and> dict_get obj ''service_slot'' = JNull)"
    by simp
  note t1 = identity_free_request_matches [OF refill_registry(1,2) n d e, where b = example_builtins]
  note t2 = identity_free_request_matches [OF refill_registry(1,2) o d e, where b = example_builtins]
  obtain w1 pan where a: "adjust_pan_after_refill refill_day (suggested_grams refill_card) 160 20
                      = Some (refill_day\<lparr>ServiceDay.pan_fill_percent := pan\<rparr>)"
    and r: "api_done example_builtins refill_world ''flavoria'' 0 JNull = (w1, Ok_done pan)"
    and s: "SERVICE_DAYS w1
              = (SERVICE_DAYS refill_world)((''flavoria'', 0) \<mapsto>
                   refill_day\<lparr>ServiceDay.pan_fill_percent := pan,
                              last_decision := Some (refill_card\<lparr>status := Done\<rparr>)\<rparr>)"
    and c: "REDIS_CLIENT w1 = REDIS_CLIENT refill_world"
    using t1 by blast
  have "refill_day\<lparr>ServiceDay.pan_fill_percent := pan\<rparr>
          = refill_day\<lparr>ServiceDay.pan_fill_percent := 75\<rparr>"
    using a refill_adjust by (simp add: refill_registry)
  then have "ServiceDay.pan_fill_percent (refill_day\<lparr>ServiceDay.pan_fill_percent := pan\<rparr>)
          = ServiceDay.pan_fill_percent (refill_day\<lparr>ServiceDay.pan_fill_percent := 75\<rparr>)"
    by (rule arg_cong)
  then have pan: "pan = 75"
    by simp
  have w1: "w1 = refill_world\<lparr>SERVICE_DAYS :=
            [(''flavoria'', 0) \<mapsto>
               refill_day\<lparr>ServiceDay.pan_fill_percent := 75,
                          last_decision := Some (refill_card\<lparr>status := Done\<rparr>)\<rparr>]\<rparr>"
    using s c pan by (cases w1) (simp add: refill_world_def)
  obtain w2 where r2: "api_skip example_builtins refill_world ''flavoria'' 0 (JObj []) = (w2, Ok_skipped)"
    and s2: "SERVICE_DAYS w2
              = (SERVICE_DAYS refill_world)((''flavoria'', 0) \<mapsto>
                   refill_day\<lparr>last_decision := Some (refill_card\<lparr>status := Skipped\<rparr>)\<rparr>)"
    and c2: "REDIS_CLIENT w2 = REDIS_CLIENT refill_world"
    using t2 by blast
  have w2: "w2 = refill_world\<lparr>SERVICE_DAYS :=
            [(''flavoria'', 0) \<mapsto> refill_day\<lparr>last_decision := Some (refill_card\<lparr>status := Skipped\<rparr>)\<rparr>]\<rparr>"
    using s2 c2 by (cases w2) (simp add: refill_world_def)
  show ?thesis
    using refill_registry(1,2) d e r r2 by (simp add: pan w1 w2)
qed
section \<open>Reset of a session\<close>

lemma load_list_entries_no_client [simp]: "load_list_entries None f n = Some []"
  by (simp add: load_list_entries_def)

lemma last_n_Nil [simp]: "last_n n [] = []"
  by (simp add: last_n_def)

lemma last_n_subset: "set (last_n n xs) \<subseteq> set xs"
  by (auto simp: last_n_def dest: in_set_dropD)

lemma decode_entries_total:
  "Unloadable \<notin> set entries
   \<Longrightarrow> \<exists>parsed. decode_entries entries acc = Some parsed
                  \<and> set parsed \<subseteq> set acc \<union> set entries"
proof (induction entries arbitrary: acc)
  case Nil
  then show ?case by simp
next
  case (Cons raw rest)
  then have "Unloadable \<notin> set rest" by simp
  from Cons.IH[OF this]
  have ih: "\<exists>parsed. decode_entries rest acc' = Some parsed
                  \<and> set parsed \<subseteq> set acc' \<union> set rest" for acc'
    by blast
  show ?case
  proof (cases raw)
    case Unloadable
    then show ?thesis using Cons.prems by simp
  next
    case Undecodable
    then show ?thesis using ih[of acc] by auto
  next
    case Mistyped
    then show ?thesis using ih[of "acc @ [raw]"] by auto
  next
    case Overflowing
    then show ?thesis using ih[of "acc @ [raw]"] by auto
  next
    case (Stored x)
    then show ?thesis using ih[of "acc @ [raw]"] by auto
  qed
qed

lemma load_list_entries_total:
  assumes "Unloadable \<notin> set (f r)"
  shows "\<exists>entries. load_list_entries (Some r) f n = Some entries \<and> set entries \<subseteq> set (f r)"
proof (cases "reachable r")
  case False
  then show ?thesis by (simp add: load_list_entries_def)
next
  case True
  have "Unloadable \<notin> set (last_n n (f r))"
    using assms last_n_subset[of n "f r"] by blast
  from decode_entries_total[OF this, of "[]"]
  obtain parsed where "decode_entries (last_n n (f r)) [] = Some parsed"
    and "set parsed \<subseteq> set (last_n n (f r))" by auto
  then show ?thesis
    using True last_n_subset[of n "f r"] by (auto simp: load_list_entries_def)
qed

lemma parse_scores_total:
  "Overflowing \<notin> set entries \<Longrightarrow> \<exists>parsed. parse_scores entries acc = Some parsed"
proof (induction entries arbitrary: acc)
  case Nil
  then show ?case by simp
next
  case (Cons raw rest)
  then show ?case by (cases raw) auto
qed

lemma hydrate_no_history:
  assumes "client = None
           \<or> (\<exists>r. client = Some r
                   \<and> (\<not> reachable r
                       \<or> (scores_list r (service_day_storage_id sd) = []
                           \<and> detailed_feedback_list r (service_day_storage_id sd) = []
                           \<and> reactions_list r (service_day_storage_id sd) = [])))"
  shows "hydrate_service_day_from_store client sd = Returns sd"
  using assms
  by (auto simp: hydrate_service_day_from_store_def load_list_entries_def Let_def)

lemma hydrate_storage_id:
  assumes "hydrate_service_day_from_store client sd = Returns sd'"
  shows "service_day_storage_id sd' = service_day_storage_id sd"
  using assms
  by (auto simp: hydrate_service_day_from_store_def Let_def service_day_storage_id_def
      split: if_splits option.splits Option.bind_splits)

lemma hydrate_returns:
  assumes "client = None
           \<or> (\<exists>r. client = Some r \<and> history_readable r (service_day_storage_id sd))"
  shows "\<exists>sd'. hydrate_service_day_from_store client sd = Returns sd'"
proof (cases client)
  case None
  then show ?thesis by (simp add: hydrate_service_day_from_store_def)
next
  case (Some r)
  let ?id = "service_day_storage_id sd"
  have h: "Unloadable \<notin> set (reactions_list r ?id)" "Unloadable \<notin> set (scores_list r ?id)"
    "Overflowing \<notin> set (scores_list r ?id)" "Unloadable \<notin> set (detailed_feedback_list r ?id)"
    using assms Some by (simp_all add: history_readable_def)
  obtain reactions where l1:
    "load_list_entries (Some r) (\<lambda>r. reactions_list r ?id) MAX_REACTIONS_STORED = Some reactions"
    using load_list_entries_total[of "\<lambda>r. reactions_list r ?id" r] h(1) by blast
  obtain scores_raw where l2:
    "load_list_entries (Some r) (\<lambda>r. scores_list r ?id) FEEDBACK_SCORE_HISTORY_LIMIT = Some scores_raw"
    and sub: "set scores_raw \<subseteq> set (scores_list r ?id)"
    using load_list_entries_total[of "\<lambda>r. scores_list r ?id" r] h(2) by blast
  have "Overflowing \<notin> set scores_raw" using sub h(3) by blast
  then obtain parsed where p: "parse_scores scores_raw [] = Some parsed"
    using parse_scores_total by blast
  obtain detailed where l3:
    "load_list_entries (Some r) (\<lambda>r. detailed_feedback_list r ?id) DETAILED_FEEDBACK_HISTORY_LIMIT
       = Some detailed"
    using load_list_entries_total[of "\<lambda>r. detailed_feedback_list r ?id" r] h(4) by blast
  show ?thesis
    using Some l1 l2 p l3
    by (simp add: hydrate_service_day_from_store_def Let_def)
qed

lemma storage_id_new [simp]: "service_day_storage_id (new_service_day sid day) = (sid, day)"
  by (simp add: service_day_storage_id_def new_service_day_def Let_def)

lemma create_storage_id:
  assumes "SERVICE_DAYS w (sid, day) = None"
    and "get_or_create_service_day w sid day = (w1, Some sd)"
  shows "service_day_storage_id sd = (sid, day)
         \<and> w1 = w\<lparr>SERVICE_DAYS := (SERVICE_DAYS w)((sid, day) \<mapsto> sd)\<rparr>"
  using assms hydrate_storage_id[of "REDIS_CLIENT w" "new_service_day sid day" sd]
  by (auto simp: get_or_create_service_day_def split: outcome.splits)

lemma create_returns:
  assumes "REDIS_CLIENT w = None
           \<or> (\<exists>r. REDIS_CLIENT w = Some r \<and> history_readable r (sid, day))"
  shows "snd (get_or_create_service_day w sid day) \<noteq> None"
proof (cases "SERVICE_DAYS w (sid, day)")
  case (Some sd)
  then show ?thesis by (simp add: get_or_create_service_day_def)
next
  case None
  obtain sd where "hydrate_service_day_from_store (REDIS_CLIENT w) (new_service_day sid day)
                     = Returns sd"
    using hydrate_returns[of "REDIS_CLIENT w" "new_service_day sid day"] assms by auto
  then show ?thesis
    using None by (simp add: get_or_create_service_day_def)
qed

lemma reset_clears:
  assumes ok: "REDIS_CLIENT w = None \<or> (\<exists>r. REDIS_CLIENT w = Some r \<and> reachable r)"
    and keyed: "keyed_by_identity w"
    and res: "api_reset_day w sid day = (w', Ok_reset)"
  shows "SERVICE_DAYS w' (sid, day) = None
         \<and> (case REDIS_CLIENT w' of None \<Rightarrow> True
             | Some r' \<Rightarrow> scores_list r' (sid, day) = []
                          \<and> detailed_feedback_list r' (sid, day) = []
                          \<and> reactions_list r' (sid, day) = [])"
proof (cases "SERVICE_DAYS w (sid, day)")
  case None
  obtain w1 found where g: "get_or_create_service_day w sid day = (w1, found)"
    by (cases "get_or_create_service_day w sid day")
  then obtain sd where f: "found = Some sd"
    using res None by (cases found) (auto simp: api_reset_day_def Let_def)
  note c = create_storage_id[OF None g[unfolded f]]
  show ?thesis
    using res ok None g f c
    by (auto simp: api_reset_day_def Let_def clear_service_day_storage_def split: option.splits)
next
  case (Some sd)
  have id: "service_day_storage_id sd = (sid, day)"
    using keyed Some by (auto simp: keyed_by_identity_def split: option.splits dest: spec[of _ "(sid, day)"])
  show ?thesis
    using res ok Some id
    by (auto simp: api_reset_day_def Let_def clear_service_day_storage_def split: option.splits)
qed

lemma reset_returns:
  assumes "SERVICE_DAYS w (sid, day) \<noteq> None \<or> REDIS_CLIENT w = None
           \<or> (\<exists>r. REDIS_CLIENT w = Some r \<and> history_readable r (sid, day))"
  shows "snd (api_reset_day w sid day) = Ok_reset"
proof (cases "SERVICE_DAYS w (sid, day)")
  case (Some sd)
  then show ?thesis by (simp add: api_reset_day_def Let_def)
next
  case None
  then have "REDIS_CLIENT w = None
           \<or> (\<exists>r. REDIS_CLIENT w = Some r \<and> history_readable r (sid, day))"
    using assms by simp
  from create_returns[OF this]
  obtain w1 sd where "get_or_create_service_day w sid day = (w1, Some sd)"
    by (cases "get_or_create_service_day w sid day") auto
  then show ?thesis
    using None by (simp add: api_reset_day_def Let_def)
qed

lemma next_access_fresh:
  assumes "SERVICE_DAYS w' (sid, day) = None"
    and "case REDIS_CLIENT w' of None \<Rightarrow> True
         | Some r' \<Rightarrow> scores_list r' (sid, day) = []
                      \<and> detailed_feedback_list r' (sid, day) = []
                      \<and> reactions_list r' (sid, day) = []"
  shows "snd (get_or_create_service_day (with_reachable up w') sid day)
           = Some (new_service_day sid day)"
proof -
  have "hydrate_service_day_from_store (REDIS_CLIENT (with_reachable up w')) (new_service_day sid day)
          = Returns (new_service_day sid day)"
    using assms(2)
    by (intro hydrate_no_history) (auto simp: with_reachable_def split: option.splits)
  then show ?thesis
    using assms(1) by (simp add: get_or_create_service_day_def with_reachable_def Let_def)
qed

lemma reset_unreachable:
  "api_reset_day unreachable_world ''cafe'' 0 = (unreachable_world, Ok_reset)"
  by (simp add: api_reset_day_def unreachable_world_def get_or_create_service_day_def Let_def
      hydrate_service_day_from_store_def load_list_entries_def clear_service_day_storage_def
      empty_redis_def)

text \<open>
  A reset that has to create the session first reads the stored history back.  When a stored
  rating is an infinite number, \<open>int\<close> raises OverflowError there: the request fails before
  the \<open>delete\<close>, the stored list stays and the new session stays registered.
\<close>

lemma reset_aborts_on_infinite_rating:
  "api_reset_day overflowing_world ''cafe'' 0
     = (overflowing_world\<lparr>SERVICE_DAYS := [(''cafe'', 0) \<mapsto> new_service_day ''cafe'' 0]\<rparr>,
        ServerError)"
  by (simp add: api_reset_day_def overflowing_world_def get_or_create_service_day_def Let_def
      hydrate_service_day_from_store_def load_list_entries_def last_n_def empty_redis_def
      FEEDBACK_SCORE_HISTORY_LIMIT_def MAX_REACTIONS_STORED_def)

text \<open>
  C8, as stated: after \<open>resetSession\<close> the next access observes the histories cleared, the
  externally persisted history included.  This fails when the event store does not answer
  the reset: \<open>_clear_service_day_storage\<close> logs the error and goes on, the stored history
  stays, and once the store answers again the next access reads it back.  With one rating in
  the store and the store down during the reset, the reset is answered as done, the rating is
  still stored afterwards and the next access finds the ratings \<open>[1]\<close>, where the default is
  the empty list.
\<close>

theorem reset_with_store_down_counterexample:
  "snd (api_reset_day unreachable_world ''cafe'' 0) = Ok_reset
   \<and> scores_list (the (REDIS_CLIENT (fst (api_reset_day unreachable_world ''cafe'' 0)))) (''cafe'', 0)
     = [Stored 1]
   \<and> map_option feedback_scores
       (snd (get_or_create_service_day
               (with_reachable True (fst (api_reset_day unreachable_world ''cafe'' 0))) ''cafe'' 0))
     = Some [1]
   \<and> feedback_scores (new_service_day ''cafe'' 0) = []"
proof -
  have a: "scores_list (the (REDIS_CLIENT unreachable_world)) (''cafe'', 0) = [Stored 1]"
    by (simp add: unreachable_world_def empty_redis_def)
  have b: "map_option feedback_scores
       (snd (get_or_create_service_day (with_reachable True unreachable_world) ''cafe'' 0))
         = Some [1]"
    by (simp add: with_reachable_def unreachable_world_def empty_redis_def
        get_or_create_service_day_def Let_def hydrate_service_day_from_store_def
        load_list_entries_def last_n_def typed_def List.map_filter_simps
        service_day_storage_id_def new_service_day_def DEFAULT_SITE_ID_def
        FEEDBACK_SCORE_HISTORY_LIMIT_def MAX_REACTIONS_STORED_def
        DETAILED_FEEDBACK_HISTORY_LIMIT_def)
  have c: "feedback_scores (new_service_day ''cafe'' 0) = []"
    by (simp add: new_service_day_def DEFAULT_SITE_ID_def)
  show ?thesis using a b c by (simp add: reset_unreachable)
qed

text \<open>
  C8, amended: after a \<open>resetSession\<close> for a (site, date) key that is answered as done, when no
  event store is configured or the store answers the reset, the session is gone from the
  registry and the three lists of that key in the event store are empty, and the next access,
  whether or not the store is reachable then, observes a fresh session: diners-so-far and pan
  fill percent at the defaults of the site (148 and 46 for the default site with its preset,
  0 and 60 elsewhere), the quick ratings at the preset list of the site, no detailed feedback,
  no reactions and no decision card.  The reset is answered as done whenever the session is
  registered, or no event store is configured, or the stored history of the key can be read
  back.  (The registry is keyed by each session's own site and date, as the code that fills
  it keeps it.)
\<close>

theorem reset_session_clears:
  assumes "REDIS_CLIENT w = None \<or> (\<exists>r. REDIS_CLIENT w = Some r \<and> reachable r)"
    and "keyed_by_identity w"
    and "api_reset_day w sid day = (w', resp)"
  shows "(resp = Ok_reset \<longrightarrow>
            SERVICE_DAYS w' (sid, day) = None
            \<and> (case REDIS_CLIENT w' of None \<Rightarrow> True
                | Some r' \<Rightarrow> scores_list r' (sid, day) = []
                             \<and> detailed_feedback_list r' (sid, day) = []
                             \<and> reactions_list r' (sid, day) = [])
            \<and> (\<exists>sd. snd (get_or_create_service_day (with_reachable up w') sid day) = Some sd
                   \<and> sd = new_service_day sid day
                   \<and> diners_so_far sd = (if sid = DEFAULT_SITE_ID then 148 else 0)
                   \<and> ServiceDay.pan_fill_percent sd = (if sid = DEFAULT_SITE_ID then 46 else 60)
                   \<and> feedback_scores sd
                       = (if sid = DEFAULT_SITE_ID then [3, 3, 2, 3, 3, 1, 3, 2, 3, 2, 3, 3] else [])
                   \<and> detailed_feedback sd = [] \<and> reaction_stream sd = []
                   \<and> last_decision sd = None))
         \<and> (SERVICE_DAYS w (sid, day) \<noteq> None \<or> REDIS_CLIENT w = None
              \<or> (\<exists>r. REDIS_CLIENT w = Some r \<and> history_readable r (sid, day))
            \<longrightarrow> resp = Ok_reset)"
proof (intro conjI impI)
  assume h: "SERVICE_DAYS w (sid, day) \<noteq> None \<or> REDIS_CLIENT w = None
              \<or> (\<exists>r. REDIS_CLIENT w = Some r \<and> history_readable r (sid, day))"
  show "resp = Ok_reset"
    using reset_returns[OF h] assms(3) by simp
next
  assume r: "resp = Ok_reset"
  note c = reset_clears[OF assms(1,2) assms(3)[unfolded r]]
  show "SERVICE_DAYS w' (sid, day) = None" using c by simp
  show "case REDIS_CLIENT w' of None \<Rightarrow> True
                | Some r' \<Rightarrow> scores_list r' (sid, day) = []
                             \<and> detailed_feedback_list r' (sid, day) = []
                             \<and> reactions_list r' (sid, day) = []" using c by simp
  have fresh: "snd (get_or_create_service_day (with_reachable up w') sid day)
                 = Some (new_service_day sid day)"
    using c by (intro next_access_fresh) auto
  have fields: "diners_so_far (new_service_day sid day) = (if sid = DEFAULT_SITE_ID then 148 else 0)"
    "ServiceDay.pan_fill_percent (new_service_day sid day) = (if sid = DEFAULT_SITE_ID then 46 else 60)"
    "feedback_scores (new_service_day sid day)
       = (if sid = DEFAULT_SITE_ID then [3, 3, 2, 3, 3, 1, 3, 2, 3, 2, 3, 3] else [])"
    "detailed_feedback (new_service_day sid day) = []"
    "reaction_stream (new_service_day sid day) = []"
    "last_decision (new_service_day sid day) = None"
    by (simp_all add: new_service_day_def Let_def)
  show "\<exists>sd. snd (get_or_create_service_day (with_reachable up w') sid day) = Some sd
                   \<and> sd = new_service_day sid day
                   \<and> diners_so_far sd = (if sid = DEFAULT_SITE_ID then 148 else 0)
                   \<and> ServiceDay.pan_fill_percent sd = (if sid = DEFAULT_SITE_ID then 46 else 60)
                   \<and> feedback_scores sd
                       = (if sid = DEFAULT_SITE_ID then [3, 3, 2, 3, 3, 1, 3, 2, 3, 2, 3, 3] else [])
                   \<and> detailed_feedback sd = [] \<and> reaction_stream sd = []
                   \<and> last_decision sd = None"
    using fresh fields by simp
qed

text \<open>
  C8, amended, at the same store when it is up: the stored rating can be read back, the reset
  is answered as done, and the stored rating is gone.
\<close>

theorem reset_session_clears_witness:
  "REDIS_CLIENT (with_reachable True unreachable_world)
     = Some (empty_redis\<lparr>scores_list := (\<lambda>k. [])((''cafe'', 0) := [Stored 1])\<rparr>)
   \<and> reachable (empty_redis\<lparr>scores_list := (\<lambda>k. [])((''cafe'', 0) := [Stored 1])\<rparr>)
   \<and> history_readable (empty_redis\<lparr>scores_list := (\<lambda>k. [])((''cafe'', 0) := [Stored 1])\<rparr>)
         (''cafe'', 0)
   \<and> keyed_by_identity (with_reachable True unreachable_world)
   \<and> snd (api_reset_day (with_reachable True unreachable_world) ''cafe'' 0) = Ok_reset
   \<and> map_option feedback_scores
       (snd (get_or_create_service_day
               (with_reachable True
                  (fst (api_reset_day (with_reachable True unreachable_world) ''cafe'' 0)))
               ''cafe'' 0)) = Some []
   \<and> map_option (\<lambda>r'. scores_list r' (''cafe'', 0))
       (REDIS_CLIENT (fst (api_reset_day (with_reachable True unreachable_world) ''cafe'' 0)))
     = Some []"
proof -
  let ?w = "with_reachable True unreachable_world"
  let ?r = "empty_redis\<lparr>scores_list := (\<lambda>k. [])((''cafe'', 0) := [Stored 1])\<rparr>"
  have r: "REDIS_CLIENT ?w = Some ?r"
    by (simp add: with_reachable_def unreachable_world_def empty_redis_def)
  have up: "reachable ?r"
    by (simp add: empty_redis_def)
  have o: "history_readable ?r (''cafe'', 0)"
    by (simp add: history_readable_def empty_redis_def)
  have a: "REDIS_CLIENT ?w = None \<or> (\<exists>r. REDIS_CLIENT ?w = Some r \<and> reachable r)"
    using r up by simp
  have b: "keyed_by_identity ?w"
    by (simp add: keyed_by_identity_def with_reachable_def unreachable_world_def)
  have ne: "''cafe'' \<noteq> DEFAULT_SITE_ID" by (simp add: DEFAULT_SITE_ID_def)
  obtain w' resp where res: "api_reset_day ?w ''cafe'' 0 = (w', resp)"
    by (cases "api_reset_day ?w ''cafe'' 0")
  have c: "REDIS_CLIENT w' \<noteq> None"
    using res r
    by (auto simp: api_reset_day_def Let_def get_or_create_service_day_def
        clear_service_day_storage_def split: option.splits outcome.splits prod.splits)
  note t = reset_session_clears [OF a b res, of True]
  have ok: "resp = Ok_reset"
    using t r o by blast
  have cleared: "case REDIS_CLIENT w' of None \<Rightarrow> True
                | Some r' \<Rightarrow> scores_list r' (''cafe'', 0) = []
                             \<and> detailed_feedback_list r' (''cafe'', 0) = []
                             \<and> reactions_list r' (''cafe'', 0) = []"
    and fresh: "\<exists>sd. snd (get_or_create_service_day (with_reachable True w') ''cafe'' 0) = Some sd
                   \<and> sd = new_service_day ''cafe'' 0
                   \<and> feedback_scores sd
                       = (if ''cafe'' = DEFAULT_SITE_ID then [3, 3, 2, 3, 3, 1, 3, 2, 3, 2, 3, 3] else [])"
    using t ok by blast+
  show ?thesis
    using r up o b ok cleared fresh ne c by (auto simp: res split: option.splits)
qed
section \<open>Urgency tier\<close>

lemma decide_signal:
  assumes "decide b e site sd target scores entries = Some (sd', s)"
  shows "snap_signal_level s = signal_level (snap_suggested_grams s) (snap_pan_fill_percent s)"
  using assms unfolding decide_def Let_def
  by (clarsimp split: Option.bind_splits)

lemma snapshot_signal:
  assumes "compute_current_state b e w sid = Some (w', s)"
  shows "snap_signal_level s = signal_level (snap_suggested_grams s) (snap_pan_fill_percent s)"
  using assms unfolding compute_current_state_def Let_def
  by (auto split: Option.bind_splits prod.splits dest: decide_signal)

text \<open>
  C3: the tier comes from the computed grams and the pan fill percent, in priority order.  It
  is critical exactly when the grams reach 1800 or the pan is at 35 percent or less; failing
  that it is warning exactly when the grams reach 600 or the pan is at 55 percent or less;
  it is ready in every other case.  No grams with a pan at 80 percent is ready, and 2000 grams
  is critical whatever the pan holds.  The signal of every snapshot that
  \<open>compute_current_state\<close> returns is this function of the snapshot's grams and pan fill.
\<close>

theorem urgency_tier_priority:
  "(signal_level grams pan = Critical \<longleftrightarrow> 1800 \<le> grams \<or> pan \<le> 35)
   \<and> (signal_level grams pan = Warning
        \<longleftrightarrow> \<not> (1800 \<le> grams \<or> pan \<le> 35) \<and> (600 \<le> grams \<or> pan \<le> 55))
   \<and> (signal_level grams pan = Ready
        \<longleftrightarrow> \<not> (1800 \<le> grams \<or> pan \<le> 35) \<and> \<not> (600 \<le> grams \<or> pan \<le> 55))
   \<and> signal_level 0 80 = Ready
   \<and> signal_level 2000 pan = Critical
   \<and> (compute_current_state b e w sid = Some (w', s)
        \<longrightarrow> snap_signal_level s = signal_level (snap_suggested_grams s) (snap_pan_fill_percent s))"
  using snapshot_signal [of b e w sid w' s] by (simp add: signal_level_def)

lemma wave_template_default:
  "get_wave_template default_site =
     [\<lparr>index = 0, start_time = 660, end_time = 690, expected_diners_pattern = 10\<rparr>,
      \<lparr>index = 1, start_time = 690, end_time = 720, expected_diners_pattern = 30\<rparr>,
      \<lparr>index = 2, start_time = 720, end_time = 750, expected_diners_pattern = 40\<rparr>,
      \<lparr>index = 3, start_time = 750, end_time = 780, expected_diners_pattern = 25\<rparr>,
      \<lparr>index = 4, start_time = 780, end_time = 810, expected_diners_pattern = 15\<rparr>]"
  by (simp add: get_wave_template_def default_site_def time_of_def Let_def)

lemma wave_index_at_1140: "get_current_wave_index 700 default_site = Some 1"
  by (simp add: get_current_wave_index_def wave_template_default Let_def)

lemma cafe_day:
  "new_service_day ''cafe'' 0 =
     \<lparr>ServiceDay.site_id = ''cafe'', date = 0, total_expected_diners = 120, diners_so_far = 0,
      ServiceDay.wave_index = 0, ServiceDay.pan_fill_percent = 60, feedback_scores = [],
      detailed_feedback = [], reaction_stream = [], last_decision = None,
      waves = get_wave_template default_site\<rparr>"
  by (simp add: new_service_day_def DEFAULT_SITE_ID_def get_site_config_def Let_def)

lemma cafe_prepare:
  "prepare_session example_env default_site None (new_service_day ''cafe'' 0)
     = Some ((new_service_day ''cafe'' 0)\<lparr>ServiceDay.wave_index := 2\<rparr>, 2, [], [])"
  by (simp add: prepare_session_def cafe_day wave_template_default wave_index_at_1140
      example_env_def target_wave_index_def get_feedback_scores_def
      get_detailed_feedback_entries_def load_list_entries_def typed_def last_n_def Let_def
      List.map_filter_simps)

lemma cafe_multiplier: "compute_feedback_demand_multiplier example_builtins 0 [] [] = Some (Fin 1)"
proof -
  have r3: "round_double (1 / 5) = Fin (3602879701896397 / 18014398509481984)"
    by (rule round_double_near[where e = "- 3" and m = 7205759403792794]) simp_all
  have r4: "round_double (9 / 50) = Fin (3242591731706757 / 18014398509481984)"
    by (rule round_double_near[where e = "- 3" and m = 6485183463413514]) simp_all
  show ?thesis
    by (simp add: compute_feedback_demand_multiplier_def rated_delta_def detailed_delta_def
        eval_simps r3 r4)
qed

lemma cafe_predict:
  assumes "total_expected_diners sd = 120" "diners_so_far sd = 0"
  shows "predict_next_wave 0 sd 2 (Fin 1) = Some 40"
  using assms
  by (simp add: predict_next_wave_def EXPECTED_WAVES_def Let_def int_truediv_def
      float_of_int_def round_double_numeral lit_half trunc_rat_def)

lemma cafe_grams: "compute_suggested_grams 40 60 160 20 = Some 4000"
proof -
  have r1: "round_double (3 / 5) = Fin (5404319552844595 / 9007199254740992)"
    by (rule round_double_near[where e = "- 1" and m = 5404319552844595]) simp_all
  have r2: "round_double (27021597764222975 / 2251799813685248) = Fin (12)"
    by (rule round_double_near[where e = 3 and m = 6755399441055744]) simp_all
  show ?thesis
    by (simp add: compute_suggested_grams_def eval_simps r1 r2 trunc_rat_def)
qed

lemma cafe_decide:
  "decide example_builtins example_env default_site
      ((new_service_day ''cafe'' 0)\<lparr>ServiceDay.wave_index := 2\<rparr>) 2 [] []
     = Some ((new_service_day ''cafe'' 0)\<lparr>ServiceDay.wave_index := 2,
               last_decision := Some cafe_card\<rparr>, cafe_snapshot)"
proof -
  have env: "utc_now example_env = 0" "now_minutes example_env = 700" "DEMO_MODE example_env"
    "weekday example_env = 0" "now_iso example_env = ''2025-03-03T11:40:00''"
    "menu_service_slot example_env = None"
    by (simp_all add: example_env_def)
  have site: "lunch_window_end default_site = 810" "portion_grams default_site = 160"
    "pan_capacity_portions default_site = 20" "SiteConfig.site_id default_site = ''flavoria''"
    by (simp_all add: default_site_def DEFAULT_SITE_ID_def)
  have sd: "total_expected_diners ((new_service_day ''cafe'' 0)\<lparr>ServiceDay.wave_index := 2\<rparr>) = 120"
    "diners_so_far ((new_service_day ''cafe'' 0)\<lparr>ServiceDay.wave_index := 2\<rparr>) = 0"
    "ServiceDay.pan_fill_percent ((new_service_day ''cafe'' 0)\<lparr>ServiceDay.wave_index := 2\<rparr>) = 60"
    "last_decision ((new_service_day ''cafe'' 0)\<lparr>ServiceDay.wave_index := 2\<rparr>) = None"
    by (simp_all add: cafe_day)
  have sat: "compute_satisfaction_percent [] = Some None"
    by (simp add: compute_satisfaction_percent_def)
  have portions: "int_truediv 4000 160 = Some (Fin 25)"
    by (simp add: int_truediv_def round_double_numeral)
  have served: "int_truediv 0 120 = Some (Fin 0)"
    by (simp add: int_truediv_def)
  show ?thesis
    unfolding decide_def Let_def env site sd
    by (simp add: cafe_multiplier cafe_predict demo_predicted_def demo_pan_fill_def cafe_grams
        sat portions served signal_level_def PRIMARY_SERVICE_SLOT_def cafe_card_def
        cafe_snapshot_def lit_100 cafe_day example_env_def)
qed


lemma cafe_state:
  "compute_current_state example_builtins example_env empty_world ''cafe''
     = Some (put_service_day
               (empty_world\<lparr>SERVICE_DAYS := [(''cafe'', 0) \<mapsto> new_service_day ''cafe'' 0]\<rparr>)
               (''cafe'', 0)
               ((new_service_day ''cafe'' 0)\<lparr>ServiceDay.wave_index := 2,
                  last_decision := Some cafe_card\<rparr>),
             cafe_snapshot)"
proof -
  have g: "get_or_create_service_day empty_world ''cafe'' (today example_env)
        = (empty_world\<lparr>SERVICE_DAYS := [(''cafe'', 0) \<mapsto> new_service_day ''cafe'' 0]\<rparr>,
           Some (new_service_day ''cafe'' 0))"
    by (simp add: get_or_create_service_day_def empty_world_def example_env_def
        hydrate_service_day_from_store_def Let_def)
  have c: "REDIS_CLIENT (empty_world\<lparr>SERVICE_DAYS := [(''cafe'', 0) \<mapsto> new_service_day ''cafe'' 0]\<rparr>)
        = None"
    by (simp add: empty_world_def)
  have r: "get_recent_reactions None sd 10 = Some (sd, last_n 10 (reaction_stream sd))" for sd
    by (simp add: get_recent_reactions_def load_list_entries_def Let_def)
  have t: "today example_env = 0" by (simp add: example_env_def)
  show ?thesis
    unfolding compute_current_state_def Let_def g prod.case c get_site_config_def
    by (simp add: cafe_prepare cafe_decide t r)
qed

text \<open>
  C3 at the first request of the site \<open>cafe\<close> in the example environment: 40 diners are
  predicted against a pan at 60 percent, the grams reach the ceiling of 4000, and the signal is
  critical.
\<close>

theorem urgency_tier_priority_witness:
  "compute_current_state example_builtins example_env empty_world ''cafe''
     = Some (put_service_day
               (empty_world\<lparr>SERVICE_DAYS := [(''cafe'', 0) \<mapsto> new_service_day ''cafe'' 0]\<rparr>)
               (''cafe'', 0)
               ((new_service_day ''cafe'' 0)\<lparr>ServiceDay.wave_index := 2,
                  last_decision := Some cafe_card\<rparr>),
             cafe_snapshot)
   \<and> snap_signal_level cafe_snapshot
       = signal_level (snap_suggested_grams cafe_snapshot) (snap_pan_fill_percent cafe_snapshot)
   \<and> (signal_level 4000 60 = Critical \<longleftrightarrow> (1800 :: int) \<le> 4000 \<or> (60 :: int) \<le> 35)
   \<and> signal_level 0 80 = Ready \<and> signal_level 2000 60 = Critical"
  using urgency_tier_priority [of 4000 60 example_builtins example_env empty_world "''cafe''" _
      cafe_snapshot] cafe_state
  by simp

section \<open>Feedback multiplier\<close>

lemma round_double_Fin_rat: "round_double x = Fin r \<Longrightarrow> round_rat x = r"
  by (auto simp: round_double_def Let_def split: if_splits)

lemma lit_minus_fifth: "lit (- (2 / 10)) = Fin (- (3602879701896397 / 18014398509481984))"
proof -
  have c1: "round_double (1 / 5) = Fin (3602879701896397 / 18014398509481984)"
    by (rule round_double_near[where e = "- 3" and m = 7205759403792794]) simp_all
  show ?thesis by (simp add: lit_def round_double_minus c1)
qed

lemma lit_18_100: "lit (18 / 100) = Fin (3242591731706757 / 18014398509481984)"
proof -
  have c2: "round_double (9 / 50) = Fin (3242591731706757 / 18014398509481984)"
    by (rule round_double_near[where e = "- 3" and m = 6485183463413514]) simp_all
  show ?thesis by (simp add: lit_def c2)
qed

lemma lit_one: "lit 1 = Fin 1"
  by (simp add: lit_def)

lemma clamp_between:
  assumes "lo \<le> hi"
  shows "\<exists>c. py_max (Fin lo) (py_min t (Fin hi)) = Fin c \<and> lo \<le> c \<and> c \<le> hi"
  using assms by (cases t) (auto simp: py_max_def py_min_def)

lemma clamp_delta:
  "\<exists>c. py_max (Fin (- (3602879701896397 / 18014398509481984)))
           (py_min t (Fin (3242591731706757 / 18014398509481984))) = Fin c
       \<and> - (3602879701896397 / 18014398509481984) \<le> c
       \<and> c \<le> 3242591731706757 / 18014398509481984"
  by (rule clamp_between) simp

lemma one_plus_delta:
  assumes "- (3602879701896397 / 18014398509481984) \<le> c"
    and "c \<le> 3242591731706757 / 18014398509481984"
  shows "\<exists>m. fadd (Fin 1) (Fin c) = Fin m \<and> 4 / 5 \<le> m \<and> m \<le> 59 / 50"
proof -
  have c3: "round_double (14411518807585587 / 18014398509481984) = Fin (3602879701896397 / 4503599627370496)"
    by (rule round_double_tie[where e = "- 1" and m = 7205759403792794]) simp_all
  have c4: "round_double (21256990241188741 / 18014398509481984) = Fin (5314247560297185 / 4503599627370496)"
    by (rule round_double_near[where e = 0 and m = 5314247560297185]) simp_all
  have lo: "14411518807585587 / 18014398509481984 \<le> 1 + c" using assms(1) by simp
  have hi: "1 + c \<le> 21256990241188741 / 18014398509481984" using assms(2) by simp
  have "round_rat (14411518807585587 / 18014398509481984) \<le> round_rat (1 + c)"
    using lo by (rule round_rat_mono)
  then have m_lo: "3602879701896397 / 4503599627370496 \<le> round_rat (1 + c)"
    by (simp only: round_double_Fin_rat[OF c3])
  have "round_rat (1 + c) \<le> round_rat (21256990241188741 / 18014398509481984)"
    using hi by (rule round_rat_mono)
  then have m_hi: "round_rat (1 + c) \<le> 5314247560297185 / 4503599627370496"
    by (simp only: round_double_Fin_rat[OF c4])
  have "\<bar>1 + c\<bar> \<le> 2 powi 1" using lo hi by simp
  then have "round_double (1 + c) = Fin (round_rat (1 + c))"
    by (rule round_double_finite) simp_all
  moreover have "4 / 5 \<le> round_rat (1 + c)" using m_lo by simp
  moreover have "round_rat (1 + c) \<le> 59 / 50" using m_hi by simp
  ultimately show ?thesis by simp
qed

lemma fdiv_Some: "b \<noteq> 0 \<Longrightarrow> \<exists>y. fdiv x (Fin b) = Some y"
  by (cases x) auto

lemma round_rat_one: "round_rat 1 = 1"
  using round_rat_representable[of 1 1 0] by simp

lemma float_of_len_pos:
  assumes "xs \<noteq> []"
  shows "\<exists>r. float_of_len (length xs) = Fin r \<and> r \<noteq> 0"
proof -
  have "1 \<le> length xs" using assms by (cases xs) auto
  then have "(1::rat) \<le> of_nat (length xs)" by simp
  then have "round_rat 1 \<le> round_rat (of_nat (length xs))" by (rule round_rat_mono)
  then have "1 \<le> round_rat (of_nat (length xs))" by (simp only: round_rat_one)
  then show ?thesis by (auto simp: float_of_len_def)
qed

lemma div_by_len:
  assumes "xs \<noteq> []"
  shows "\<exists>y. fdiv x (float_of_len (length xs)) = Some y"
  using float_of_len_pos[OF assms] fdiv_Some by metis

lemma lit_2: "lit 2 = Fin 2"
  by (simp add: lit_def round_double_numeral)

lemma key_deltas_total: "\<exists>y. key_deltas b stats t = Some y"
proof (induction stats arbitrary: t)
  case Nil
  then show ?case by simp
next
  case (Cons kv stats)
  obtain key vals where kv: "kv = (key, vals)" by (cases kv)
  show ?case
  proof (cases "NUMERIC_FEEDBACK_WEIGHTS key")
    case (Some weight)
    show ?thesis
    proof (cases "List.map_filter (float_of_str b) vals = []")
      case True
      then show ?thesis using Some Cons.IH kv by simp
    next
      case False
      obtain a where a: "fdiv (float_sum b (List.map_filter (float_of_str b) vals))
                           (float_of_len (length (List.map_filter (float_of_str b) vals))) = Some a"
        using div_by_len[OF False] by blast
      obtain n where n: "fdiv (fsub a (lit 3)) (lit 2) = Some n"
        using fdiv_Some[of 2] by (auto simp: lit_2)
      show ?thesis using Some False a n Cons.IH kv by (simp add: Let_def)
    qed
  next
    case None
    show ?thesis
    proof (cases "CATEGORICAL_FEEDBACK_WEIGHTS key")
      case None': None
      then show ?thesis using None Cons.IH kv by simp
    next
      case (Some mapping)
      show ?thesis
      proof (cases "vals = []")
        case True
        then show ?thesis using None Some Cons.IH kv by simp
      next
        case False
        let ?ws = "map (\<lambda>v. case mapping v of Some x \<Rightarrow> x | None \<Rightarrow> lit 0) vals"
        have ne: "?ws \<noteq> []" using False by simp
        obtain d where d: "fdiv (float_sum b ?ws) (float_of_len (length ?ws)) = Some d"
          using div_by_len[OF ne] by blast
        show ?thesis using None Some False d Cons.IH kv by (simp add: Let_def)
      qed
    qed
  qed
qed

lemma detailed_delta_total: "\<exists>y. detailed_delta b now entries t = Some y"
  using key_deltas_total by (simp add: detailed_delta_def Let_def)

lemma rated_delta_total:
  assumes "\<forall>s\<in>set scores. \<bar>s\<bar> \<le> 2 ^ 200"
  shows "\<exists>y. rated_delta scores t = Some y"
proof (cases "scores = []")
  case True
  then show ?thesis by (simp add: rated_delta_def)
next
  case False
  then have len: "int (length scores) \<noteq> 0" by simp
  have "\<bar>sum_list scores\<bar> \<le> 2 ^ 200 * int (length scores)"
    using assms by (rule sum_list_abs_le)
  then have s: "\<bar>sum_list scores\<bar> \<le> 2 ^ 200 * \<bar>int (length scores)\<bar>" by simp
  have j: "(200::nat) < 1024" by simp
  obtain a where a: "int_truediv (sum_list scores) (int (length scores)) = Some (Fin a)"
    using int_truediv_fin[OF len s j] by blast
  show ?thesis using False a by (simp add: rated_delta_def Let_def)
qed

lemma multiplier_of_total:
  "\<exists>m. fadd (lit 1) (py_max (lit (- (2 / 10))) (py_min t (lit (18 / 100)))) = Fin m
       \<and> 4 / 5 \<le> m \<and> m \<le> 59 / 50"
proof -
  obtain c where c: "py_max (Fin (- (3602879701896397 / 18014398509481984)))
           (py_min t (Fin (3242591731706757 / 18014398509481984))) = Fin c"
    and lo: "- (3602879701896397 / 18014398509481984) \<le> c"
    and hi: "c \<le> 3242591731706757 / 18014398509481984"
    using clamp_delta[of t] by blast
  from one_plus_delta[OF lo hi] c show ?thesis
    by (simp only: lit_one lit_minus_fifth lit_18_100)
qed

text \<open>
  C1: whatever the quick ratings and the detailed feedback of the session, the multiplier that
  \<open>compute_feedback_demand_multiplier\<close> returns lies in \<open>[0.8, 1.18]\<close>: the sum of the deltas,
  be it a number, an infinity or NaN, is clamped to \<open>[-0.2, 0.18]\<close> before it is added to 1.0.
  This holds for every behaviour of \<open>float\<close> and \<open>sum\<close>.  The function returns for all ratings of
  magnitude up to \<open>2^200\<close> (the ratings that the service admits are 1, 2 and 3).
\<close>

theorem feedback_multiplier_bounded:
  "(\<forall>x. compute_feedback_demand_multiplier b now scores entries = Some x
        \<longrightarrow> (\<exists>m. x = Fin m \<and> 4 / 5 \<le> m \<and> m \<le> 59 / 50))
   \<and> ((\<forall>s\<in>set scores. \<bar>s\<bar> \<le> 2 ^ 200)
        \<longrightarrow> compute_feedback_demand_multiplier b now scores entries \<noteq> None)"
proof (intro conjI allI impI)
  fix x
  assume "compute_feedback_demand_multiplier b now scores entries = Some x"
  then obtain t where
    "x = fadd (lit 1) (py_max (lit (- (2 / 10))) (py_min t (lit (18 / 100))))"
    by (auto simp: compute_feedback_demand_multiplier_def Let_def split: Option.bind_splits)
  then show "\<exists>m. x = Fin m \<and> 4 / 5 \<le> m \<and> m \<le> 59 / 50"
    using multiplier_of_total[of t] by simp
next
  assume b: "\<forall>s\<in>set scores. \<bar>s\<bar> \<le> 2 ^ 200"
  obtain t1 where t1: "rated_delta scores (lit 0) = Some t1"
    using rated_delta_total[OF b] by blast
  obtain t2 where t2: "detailed_delta b now entries t1 = Some t2"
    using detailed_delta_total by blast
  show "compute_feedback_demand_multiplier b now scores entries \<noteq> None"
    by (simp add: compute_feedback_demand_multiplier_def t1 t2 Let_def)
qed


lemma multiplier_example:
  "compute_feedback_demand_multiplier example_builtins 0 [3] []
     = Some (Fin (607985949695017 / 562949953421312))"
proof -
  have r1: "round_double (2 / 25) = Fin (5764607523034235 / 72057594037927936)"
    by (rule round_double_near[where e = "- 4" and m = 5764607523034235]) simp_all
  have r2: "round_double (5764607523034235 / 72057594037927936) = Fin (5764607523034235 / 72057594037927936)"
    by (rule round_double_near[where e = "- 4" and m = 5764607523034235]) simp_all
  have r3: "round_double (1 / 5) = Fin (3602879701896397 / 18014398509481984)"
    by (rule round_double_near[where e = "- 3" and m = 7205759403792794]) simp_all
  have r4: "round_double (9 / 50) = Fin (3242591731706757 / 18014398509481984)"
    by (rule round_double_near[where e = "- 3" and m = 6485183463413514]) simp_all
  have r5: "round_double (77822201560962171 / 72057594037927936) = Fin (607985949695017 / 562949953421312)"
    by (rule round_double_near[where e = 0 and m = 4863887597560136]) simp_all
  show ?thesis
    by (simp add: compute_feedback_demand_multiplier_def rated_delta_def detailed_delta_def
        eval_simps r1 r2 r3 r4 r5)
qed

text \<open>C1 at a single rating of 3, where the multiplier is the double 1.08.\<close>

theorem feedback_multiplier_bounded_witness:
  "\<bar>3 :: int\<bar> \<le> 2 ^ 200
   \<and> compute_feedback_demand_multiplier example_builtins 0 [3] []
       = Some (Fin (607985949695017 / 562949953421312))
   \<and> (\<exists>m. Fin (607985949695017 / 562949953421312) = Fin m \<and> 4 / 5 \<le> m \<and> m \<le> 59 / 50)
   \<and> compute_feedback_demand_multiplier example_builtins 0 [3] [] \<noteq> None"
proof -
  have a: "\<bar>3 :: int\<bar> \<le> 2 ^ 200" by simp
  then have b: "\<forall>s\<in>set [3 :: int]. \<bar>s\<bar> \<le> 2 ^ 200" by simp
  note t = feedback_multiplier_bounded [of example_builtins 0 "[3]" "[]"]
  have c: "\<exists>m. Fin (607985949695017 / 562949953421312) = Fin m \<and> 4 / 5 \<le> m \<and> m \<le> 59 / 50"
    using t multiplier_example by blast
  have d: "compute_feedback_demand_multiplier example_builtins 0 [3] [] \<noteq> None"
    using t b by blast
  from a multiplier_example c d show ?thesis by blast
qed
end
